theory Spec2Isabelle
  imports Main "HOL-Library.Word"
begin

section \<open>Stateful precompiles of subnet-evm: native minter, fee config manager, echo stub\<close>

text \<open>
  A shallow embedding of \<^verbatim>\<open>precompile/contract_native_minter.go\<close>, of the fee
  config manager and of the xChainECRecover stub. Byte slices are lists of 8-bit words
  (a nil slice and an empty slice are both the empty list), \<^verbatim>\<open>uint64\<close> gas is a
  64-bit word, \<^verbatim>\<open>*big.Int\<close> is an optional unbounded integer (\<open>None\<close> is the nil
  pointer), and the in-place mutation of the state database is explicit state passing.
\<close>

subsection \<open>Errors\<close>

text \<open>
  Every error value the modelled functions can return. The \<^verbatim>\<open>fmt.Errorf\<close> errors
  keep the datum of their message; \<open>GoPanic\<close> stands for a run-time panic (nil
  dereference, slice out of range, \<^verbatim>\<open>FillBytes\<close> on a value that does not fit).
\<close>

datatype error =
    ErrOutOfGas
  | ErrWriteProtection
  | ErrInvalidMintInputLength nat
  | ErrInvalidFeeConfigInputLength nat
  | ErrInvalidAllowListInputLength nat
  | ErrCannotMint "8 word list"
  | ErrCannotChangeFee "8 word list"
  | ErrCannotModifyAllowList "8 word list"
  | ErrUnknownFieldKey nat
  | ErrPackLength nat nat
  | GoPanic

subsection \<open>Bytes, big integers, addresses and hashes (Go library types)\<close>

type_synonym byte = "8 word"
type_synonym bytes = "byte list"
type_synonym Address = "byte list"
type_synonym Hash = "byte list"
type_synonym BigInt = "int option"

definition HashLength :: nat where
  "HashLength = 32"

definition AddressLength :: nat where
  "AddressLength = 20"

text \<open>The minimal big-endian bytes of a natural number (empty for 0).\<close>

fun nat_bytes :: "nat \<Rightarrow> bytes" where
  "nat_bytes n = (if n = 0 then [] else nat_bytes (n div 256) @ [of_nat (n mod 256)])"

declare nat_bytes.simps [simp del]

text \<open>\<^verbatim>\<open>(*big.Int).Bytes\<close>: the big-endian bytes of the absolute value.\<close>

definition Int_Bytes :: "int \<Rightarrow> bytes" where
  "Int_Bytes x = nat_bytes (nat \<bar>x\<bar>)"

text \<open>\<^verbatim>\<open>new(big.Int).SetBytes(b)\<close>: \<open>b\<close> read as a big-endian unsigned integer.\<close>

definition Int_SetBytes :: "bytes \<Rightarrow> int" where
  "Int_SetBytes b = foldl (\<lambda>acc x. acc * 256 + uint x) 0 b"

text \<open>
  \<^verbatim>\<open>x.FillBytes(make([]byte, n))\<close>: the absolute value of \<open>x\<close>, zero-extended to
  \<open>n\<close> big-endian bytes; panics on a nil receiver and when the value does not fit.
\<close>

definition FillBytes :: "BigInt \<Rightarrow> nat \<Rightarrow> error + bytes" where
  "FillBytes x n =
     (case x of
        None \<Rightarrow> Inl GoPanic
      | Some v \<Rightarrow>
          (let b = Int_Bytes v
           in if n < length b then Inl GoPanic
              else Inr (replicate (n - length b) 0 @ b)))"

text \<open>
  \<^verbatim>\<open>common.BytesToAddress\<close> and \<^verbatim>\<open>common.BytesToHash\<close>: when the slice is longer
  than the array it is cropped from the left; then it is copied right-aligned into the
  zeroed array.
\<close>

definition BytesToAddress :: "bytes \<Rightarrow> Address" where
  "BytesToAddress b =
     (let b' = (if AddressLength < length b then drop (length b - AddressLength) b else b)
      in replicate (AddressLength - length b') 0 @ b')"

definition BytesToHash :: "bytes \<Rightarrow> Hash" where
  "BytesToHash b =
     (let b' = (if HashLength < length b then drop (length b - HashLength) b else b)
      in replicate (HashLength - length b') 0 @ b')"

text \<open>\<^verbatim>\<open>a.Hash()\<close> is \<^verbatim>\<open>BytesToHash(a[:])\<close>; \<^verbatim>\<open>h.Bytes()\<close> is the slice itself.\<close>

definition Address_Hash :: "Address \<Rightarrow> Hash" where
  "Address_Hash a = BytesToHash a"

text \<open>\<^verbatim>\<open>common.BigToHash(b)\<close> is \<^verbatim>\<open>BytesToHash(b.Bytes())\<close>; a nil \<open>b\<close> panics.\<close>

definition BigToHash :: "BigInt \<Rightarrow> error + Hash" where
  "BigToHash x = (case x of None \<Rightarrow> Inl GoPanic | Some v \<Rightarrow> Inr (BytesToHash (Int_Bytes v)))"

text \<open>\<^verbatim>\<open>new(big.Int).Set(h.Big())\<close>: a fresh integer holding the hash's value.\<close>

definition Hash_Big :: "Hash \<Rightarrow> BigInt" where
  "Hash_Big h = Some (Int_SetBytes h)"

text \<open>\<^verbatim>\<open>common.Hash{}\<close>, the zero hash.\<close>

definition zeroHash :: Hash where
  "zeroHash = replicate HashLength 0"

subsection \<open>Constants declared outside the given sources\<close>

text \<open>
  The gas costs, the precompile addresses and the function selectors (the results of
  \<^verbatim>\<open>CalculateFunctionSelector\<close>) are declared in files that are not part of the
  sources at hand; the model takes them as parameters.
\<close>

record Params =
  MintGasCost :: "64 word"
  SetFeeConfigGasCost :: "64 word"
  ReadAllowListGasCost :: "64 word"
  ModifyAllowListGasCost :: "64 word"
  ContractNativeMinterAddress :: Address
  FeeConfigManagerAddress :: Address
  mintSignature :: bytes
  setFeeConfigSignature :: bytes

text \<open>
  Modelled from the spec: \<^verbatim>\<open>selectorLen\<close> is declared outside the sources; a
  selector is the first 4 bytes of the signature hash.
\<close>

definition selectorLen :: nat where
  "selectorLen = 4"

subsection \<open>The state database\<close>

text \<open>
  Modelled from the spec: the \<^verbatim>\<open>StateDB\<close> interface and its implementation are
  outside the sources. The collaborator interface offers \<open>exists\<close>,
  \<open>createAccount\<close>, \<open>addBalance\<close>, \<open>getSlot\<close> and \<open>setSlot\<close>. An account
  holds a balance (an unbounded integer) and 256-bit storage slots that read as zero
  until written; an absent account has balance 0 and all-zero slots; a created account
  starts with zero balance; adding balance or writing a slot brings the account into
  existence.
\<close>

record Account =
  balance :: int
  storage :: "Hash \<Rightarrow> Hash"

type_synonym StateDB = "Address \<Rightarrow> Account option"

definition newAccount :: Account where
  "newAccount = \<lparr>balance = 0, storage = (\<lambda>_. zeroHash)\<rparr>"

definition getOrNew :: "StateDB \<Rightarrow> Address \<Rightarrow> Account" where
  "getOrNew s a = (case s a of None \<Rightarrow> newAccount | Some acc \<Rightarrow> acc)"

definition Exist :: "StateDB \<Rightarrow> Address \<Rightarrow> bool" where
  "Exist s a = (s a \<noteq> None)"

definition CreateAccount :: "StateDB \<Rightarrow> Address \<Rightarrow> StateDB" where
  "CreateAccount s a = s(a \<mapsto> newAccount)"

definition GetBalance :: "StateDB \<Rightarrow> Address \<Rightarrow> int" where
  "GetBalance s a = balance (getOrNew s a)"

definition AddBalance :: "StateDB \<Rightarrow> Address \<Rightarrow> int \<Rightarrow> StateDB" where
  "AddBalance s a amount = s(a \<mapsto> (getOrNew s a)\<lparr>balance := balance (getOrNew s a) + amount\<rparr>)"

definition GetState :: "StateDB \<Rightarrow> Address \<Rightarrow> Hash \<Rightarrow> Hash" where
  "GetState s a k = storage (getOrNew s a) k"

definition SetState :: "StateDB \<Rightarrow> Address \<Rightarrow> Hash \<Rightarrow> Hash \<Rightarrow> StateDB" where
  "SetState s a k v = s(a \<mapsto> (getOrNew s a)\<lparr>storage := (storage (getOrNew s a))(k := v)\<rparr>)"

subsection \<open>Gas and the packing helpers\<close>

text \<open>
  Modelled from the spec: \<^verbatim>\<open>deductGas\<close> is outside the sources. It deducts a fixed
  cost from the supplied gas; an insufficient budget fails with OutOfGas and zero
  remaining gas.
\<close>

definition deductGas :: "64 word \<Rightarrow> 64 word \<Rightarrow> 64 word \<times> error option" where
  "deductGas suppliedGas requiredGas =
     (if suppliedGas < requiredGas then (0, Some ErrOutOfGas)
      else (suppliedGas - requiredGas, None))"

text \<open>
  Modelled from the spec: \<^verbatim>\<open>inputPackOrdered\<close> is outside the sources. It
  concatenates the parts and fails if the concatenated length is not the total length.
\<close>

definition inputPackOrdered :: "bytes list \<Rightarrow> nat \<Rightarrow> error + bytes" where
  "inputPackOrdered inputList fullLen =
     (let packed = concat inputList
      in if length packed \<noteq> fullLen then Inl (ErrPackLength (length packed) fullLen)
         else Inr packed)"

text \<open>
  Modelled from the spec: \<^verbatim>\<open>returnPackedElement\<close> is outside the sources. It returns
  the slice \<open>[index*32, index*32+32)\<close>; the caller must have validated the total
  length, and a slice beyond the input is a panic.
\<close>

definition returnPackedElement :: "bytes \<Rightarrow> nat \<Rightarrow> error + bytes" where
  "returnPackedElement packed index =
     (let start = HashLength * index; end = start + HashLength
      in if length packed < end then Inl GoPanic
         else Inr (take (end - start) (drop start packed)))"

text \<open>Sequencing of fallible steps: the first error (or panic) ends the computation.\<close>

definition bindE :: "error + 'a \<Rightarrow> ('a \<Rightarrow> error + 'b) \<Rightarrow> error + 'b" where
  "bindE m f = (case m of Inl e \<Rightarrow> Inl e | Inr x \<Rightarrow> f x)"

subsection \<open>The allow list\<close>

text \<open>
  Modelled from the spec: the allow list (\<^verbatim>\<open>AllowListRole\<close>, \<^verbatim>\<open>IsEnabled\<close>,
  \<^verbatim>\<open>getAllowListStatus\<close>, \<^verbatim>\<open>setAllowListRole\<close>) is outside the sources. A role is
  one of None, Enabled and Admin, in this order, stored as a 256-bit slot value under the
  contract's address, keyed by the subject's 256-bit form; a slot never written reads as
  None; \<open>IsEnabled\<close> is "at least Enabled"; \<open>setRole\<close> overwrites unconditionally.
\<close>

datatype AllowListRole = AllowListNoRole | AllowListEnabled | AllowListAdmin

definition roleHash :: "AllowListRole \<Rightarrow> Hash" where
  "roleHash r =
     (case r of
        AllowListNoRole \<Rightarrow> BytesToHash (Int_Bytes 0)
      | AllowListEnabled \<Rightarrow> BytesToHash (Int_Bytes 1)
      | AllowListAdmin \<Rightarrow> BytesToHash (Int_Bytes 2))"

definition hashRole :: "Hash \<Rightarrow> AllowListRole" where
  "hashRole h =
     (if h = roleHash AllowListAdmin then AllowListAdmin
      else if h = roleHash AllowListEnabled then AllowListEnabled
      else AllowListNoRole)"

definition IsEnabled :: "AllowListRole \<Rightarrow> bool" where
  "IsEnabled r = (case r of AllowListAdmin \<Rightarrow> True | AllowListEnabled \<Rightarrow> True | AllowListNoRole \<Rightarrow> False)"

definition IsAdmin :: "AllowListRole \<Rightarrow> bool" where
  "IsAdmin r = (case r of AllowListAdmin \<Rightarrow> True | _ \<Rightarrow> False)"

definition getAllowListStatus :: "StateDB \<Rightarrow> Address \<Rightarrow> Address \<Rightarrow> AllowListRole" where
  "getAllowListStatus stateDB precompileAddr address =
     hashRole (GetState stateDB precompileAddr (Address_Hash address))"

definition setAllowListRole :: "StateDB \<Rightarrow> Address \<Rightarrow> Address \<Rightarrow> AllowListRole \<Rightarrow> StateDB" where
  "setAllowListRole stateDB precompileAddr address role =
     SetState stateDB precompileAddr (Address_Hash address) (roleHash role)"

subsection \<open>Results of a precompile call\<close>

text \<open>The named results \<^verbatim>\<open>(ret []byte, remainingGas uint64, err error)\<close>.\<close>

record CallResult =
  ret :: bytes
  remainingGas :: "64 word"
  err :: "error option"

definition allowListInputLen :: nat where
  "allowListInputLen = HashLength"

text \<open>
  Modelled from the spec: the role setters (\<^verbatim>\<open>createAllowListRoleSetter\<close>) are
  outside the sources. In the order of section 4.3: deduct the fixed gas cost
  (OutOfGas with zero remaining gas), refuse a read-only context, decode one address,
  require the caller to hold Admin, overwrite the role, return empty output.
\<close>

definition createAllowListRoleSetter ::
  "Params \<Rightarrow> Address \<Rightarrow> AllowListRole \<Rightarrow> StateDB \<Rightarrow> Address \<Rightarrow> Address \<Rightarrow> bytes \<Rightarrow> 64 word \<Rightarrow> bool
   \<Rightarrow> CallResult \<times> StateDB" where
  "createAllowListRoleSetter p precompileAddr role stateDB callerAddr addr input suppliedGas readOnly =
     (case deductGas suppliedGas (ModifyAllowListGasCost p) of
        (_, Some e) \<Rightarrow> (\<lparr>ret = [], remainingGas = 0, err = Some e\<rparr>, stateDB)
      | (remaining, None) \<Rightarrow>
          if readOnly then (\<lparr>ret = [], remainingGas = remaining, err = Some ErrWriteProtection\<rparr>, stateDB)
          else if length input \<noteq> allowListInputLen
          then (\<lparr>ret = [], remainingGas = remaining,
                 err = Some (ErrInvalidAllowListInputLength (length input))\<rparr>, stateDB)
          else if \<not> IsAdmin (getAllowListStatus stateDB precompileAddr callerAddr)
          then (\<lparr>ret = [], remainingGas = remaining, err = Some (ErrCannotModifyAllowList callerAddr)\<rparr>,
                stateDB)
          else (\<lparr>ret = [], remainingGas = remaining, err = None\<rparr>,
                setAllowListRole stateDB precompileAddr (BytesToAddress input) role))"

text \<open>
  Modelled from the spec: the allow-list reader (\<^verbatim>\<open>createReadAllowList\<close>) is outside
  the sources: it deducts its fixed gas cost, decodes one address, needs no permission
  and returns the stored role without writing.
\<close>

definition createReadAllowList ::
  "Params \<Rightarrow> Address \<Rightarrow> StateDB \<Rightarrow> Address \<Rightarrow> Address \<Rightarrow> bytes \<Rightarrow> 64 word \<Rightarrow> bool
   \<Rightarrow> CallResult \<times> StateDB" where
  "createReadAllowList p precompileAddr stateDB callerAddr addr input suppliedGas readOnly =
     (case deductGas suppliedGas (ReadAllowListGasCost p) of
        (_, Some e) \<Rightarrow> (\<lparr>ret = [], remainingGas = 0, err = Some e\<rparr>, stateDB)
      | (remaining, None) \<Rightarrow>
          if length input \<noteq> allowListInputLen
          then (\<lparr>ret = [], remainingGas = remaining,
                 err = Some (ErrInvalidAllowListInputLength (length input))\<rparr>, stateDB)
          else (\<lparr>ret = roleHash (getAllowListStatus stateDB precompileAddr (BytesToAddress input)),
                 remainingGas = remaining, err = None\<rparr>, stateDB))"

subsection \<open>The native minter\<close>

text \<open>
  \<^verbatim>\<open>PackMintInput\<close>, \<^verbatim>\<open>UnpackMintInput\<close> and the handler
  \<^verbatim>\<open>createMintNativeCoin\<close>. The handler receives the state database through
  \<^verbatim>\<open>accessibleState.GetStateDB()\<close> and writes it in place; the model takes the
  state and returns it with the results. The amount that \<^verbatim>\<open>UnpackMintInput\<close>
  returns is never nil, so the nil branch of the handler (a panic inside
  \<^verbatim>\<open>AddBalance\<close>) is there for totality only.
\<close>

definition mintInputLen :: nat where
  "mintInputLen = HashLength + HashLength"

definition PackMintInput :: "Params \<Rightarrow> Address \<Rightarrow> BigInt \<Rightarrow> error + bytes" where
  "PackMintInput p address amount =
     (let fullLen = selectorLen + mintInputLen
      in bindE (FillBytes amount 32) (\<lambda>amountBytes.
           inputPackOrdered [mintSignature p, Address_Hash address, amountBytes] fullLen))"

definition UnpackMintInput :: "bytes \<Rightarrow> error + (Address \<times> BigInt)" where
  "UnpackMintInput input =
     (if length input \<noteq> mintInputLen then Inl (ErrInvalidMintInputLength (length input))
      else bindE (returnPackedElement input 0) (\<lambda>e0.
           bindE (returnPackedElement input 1) (\<lambda>e1.
             Inr (BytesToAddress e0, Some (Int_SetBytes e1)))))"

definition createMintNativeCoin ::
  "Params \<Rightarrow> StateDB \<Rightarrow> Address \<Rightarrow> Address \<Rightarrow> bytes \<Rightarrow> 64 word \<Rightarrow> bool \<Rightarrow> CallResult \<times> StateDB" where
  "createMintNativeCoin p stateDB caller addr input suppliedGas readOnly =
     (case deductGas suppliedGas (MintGasCost p) of
        (_, Some e) \<Rightarrow> (\<lparr>ret = [], remainingGas = 0, err = Some e\<rparr>, stateDB)
      | (remaining, None) \<Rightarrow>
          if readOnly then (\<lparr>ret = [], remainingGas = remaining, err = Some ErrWriteProtection\<rparr>, stateDB)
          else
            (case UnpackMintInput input of
               Inl e \<Rightarrow> (\<lparr>ret = [], remainingGas = remaining, err = Some e\<rparr>, stateDB)
             | Inr (to, amount) \<Rightarrow>
                 if \<not> IsEnabled (getAllowListStatus stateDB (ContractNativeMinterAddress p) caller)
                 then (\<lparr>ret = [], remainingGas = remaining, err = Some (ErrCannotMint caller)\<rparr>, stateDB)
                 else
                   (let stateDB1 = (if \<not> Exist stateDB to then CreateAccount stateDB to else stateDB)
                    in case amount of
                         None \<Rightarrow> (\<lparr>ret = [], remainingGas = remaining, err = Some GoPanic\<rparr>, stateDB1)
                       | Some v \<Rightarrow>
                           (\<lparr>ret = [], remainingGas = remaining, err = None\<rparr>,
                            AddBalance stateDB1 to v))))"

subsection \<open>The fee config manager\<close>

definition gasLimitKey :: nat where
  "gasLimitKey = 0"

definition targetBlockRateKey :: nat where
  "targetBlockRateKey = 1"

definition minBaseFeeKey :: nat where
  "minBaseFeeKey = 2"

definition targetGasKey :: nat where
  "targetGasKey = 3"

definition baseFeeChangeDenominatorKey :: nat where
  "baseFeeChangeDenominatorKey = 4"

definition minBlockGasCostKey :: nat where
  "minBlockGasCostKey = 5"

definition maxBlockGasCostKey :: nat where
  "maxBlockGasCostKey = 6"

definition blockGasCostStepKey :: nat where
  "blockGasCostStepKey = 7"

definition minKey :: nat where
  "minKey = gasLimitKey"

definition maxKey :: nat where
  "maxKey = blockGasCostStepKey"

definition feeConfigInputLen :: nat where
  "feeConfigInputLen = HashLength * (maxKey - minKey + 1)"

record FeeConfig =
  GasLimit :: BigInt
  TargetBlockRate :: BigInt
  MinBaseFee :: BigInt
  TargetGas :: BigInt
  BaseFeeChangeDenominator :: BigInt
  MinBlockGasCost :: BigInt
  MaxBlockGasCost :: BigInt
  BlockGasCostStep :: BigInt

text \<open>\<^verbatim>\<open>FeeConfig{}\<close>: the zero value of the struct, every field a nil pointer.\<close>

definition emptyFeeConfig :: FeeConfig where
  "emptyFeeConfig =
     \<lparr>GasLimit = None, TargetBlockRate = None, MinBaseFee = None, TargetGas = None,
      BaseFeeChangeDenominator = None, MinBlockGasCost = None, MaxBlockGasCost = None,
      BlockGasCostStep = None\<rparr>"

text \<open>
  \<^verbatim>\<open>common.Hash{byte(i)}\<close>: the 32-byte array whose first byte is \<open>i\<close> and whose
  other bytes are zero; the storage key of field number \<open>i\<close>.
\<close>

definition feeConfigKey :: "nat \<Rightarrow> Hash" where
  "feeConfigKey i = of_nat i # replicate (HashLength - 1) 0"

definition PackSetFeeConfigInput :: "Params \<Rightarrow> FeeConfig \<Rightarrow> error + bytes" where
  "PackSetFeeConfigInput p feeConfig =
     (let fullLen = selectorLen + feeConfigInputLen
      in bindE (FillBytes (GasLimit feeConfig) 32) (\<lambda>b0.
         bindE (FillBytes (TargetBlockRate feeConfig) 32) (\<lambda>b1.
         bindE (FillBytes (MinBaseFee feeConfig) 32) (\<lambda>b2.
         bindE (FillBytes (TargetGas feeConfig) 32) (\<lambda>b3.
         bindE (FillBytes (BaseFeeChangeDenominator feeConfig) 32) (\<lambda>b4.
         bindE (FillBytes (MinBlockGasCost feeConfig) 32) (\<lambda>b5.
         bindE (FillBytes (MaxBlockGasCost feeConfig) 32) (\<lambda>b6.
         bindE (FillBytes (BlockGasCostStep feeConfig) 32) (\<lambda>b7.
           inputPackOrdered [setFeeConfigSignature p, b0, b1, b2, b3, b4, b5, b6, b7] fullLen)))))))))"

definition UnpackFeeConfigInput :: "bytes \<Rightarrow> error + FeeConfig" where
  "UnpackFeeConfigInput input =
     (if length input \<noteq> feeConfigInputLen
      then Inl (ErrInvalidFeeConfigInputLength (length input))
      else bindE (returnPackedElement input 0) (\<lambda>e0.
           bindE (returnPackedElement input 1) (\<lambda>e1.
           bindE (returnPackedElement input 2) (\<lambda>e2.
           bindE (returnPackedElement input 3) (\<lambda>e3.
           bindE (returnPackedElement input 4) (\<lambda>e4.
           bindE (returnPackedElement input 5) (\<lambda>e5.
           bindE (returnPackedElement input 6) (\<lambda>e6.
           bindE (returnPackedElement input 7) (\<lambda>e7.
             Inr \<lparr>GasLimit = Some (Int_SetBytes e0),
                  TargetBlockRate = Some (Int_SetBytes e1),
                  MinBaseFee = Some (Int_SetBytes e2),
                  TargetGas = Some (Int_SetBytes e3),
                  BaseFeeChangeDenominator = Some (Int_SetBytes e4),
                  MinBlockGasCost = Some (Int_SetBytes e5),
                  MaxBlockGasCost = Some (Int_SetBytes e6),
                  BlockGasCostStep = Some (Int_SetBytes e7)\<rparr>)))))))))"

text \<open>
  The loop \<^verbatim>\<open>for i := minKey; i <= maxKey; i++\<close> of \<^verbatim>\<open>GetFeeConfig\<close>, run over
  the list of its indices; the \<^verbatim>\<open>switch\<close> on \<open>i\<close> is the chain of tests, its
  \<^verbatim>\<open>default\<close> the error.
\<close>

fun GetFeeConfig_loop :: "Params \<Rightarrow> StateDB \<Rightarrow> nat list \<Rightarrow> FeeConfig \<Rightarrow> error + FeeConfig" where
  "GetFeeConfig_loop p stateDB [] feeConfig = Inr feeConfig"
| "GetFeeConfig_loop p stateDB (i # rest) feeConfig =
     (let val = GetState stateDB (FeeConfigManagerAddress p) (feeConfigKey i)
      in if i = gasLimitKey
         then GetFeeConfig_loop p stateDB rest (feeConfig\<lparr>GasLimit := Hash_Big val\<rparr>)
         else if i = targetBlockRateKey
         then GetFeeConfig_loop p stateDB rest (feeConfig\<lparr>TargetBlockRate := Hash_Big val\<rparr>)
         else if i = minBaseFeeKey
         then GetFeeConfig_loop p stateDB rest (feeConfig\<lparr>MinBaseFee := Hash_Big val\<rparr>)
         else if i = targetGasKey
         then GetFeeConfig_loop p stateDB rest (feeConfig\<lparr>TargetGas := Hash_Big val\<rparr>)
         else if i = baseFeeChangeDenominatorKey
         then GetFeeConfig_loop p stateDB rest (feeConfig\<lparr>BaseFeeChangeDenominator := Hash_Big val\<rparr>)
         else if i = minBlockGasCostKey
         then GetFeeConfig_loop p stateDB rest (feeConfig\<lparr>MinBlockGasCost := Hash_Big val\<rparr>)
         else if i = maxBlockGasCostKey
         then GetFeeConfig_loop p stateDB rest (feeConfig\<lparr>MaxBlockGasCost := Hash_Big val\<rparr>)
         else if i = blockGasCostStepKey
         then GetFeeConfig_loop p stateDB rest (feeConfig\<lparr>BlockGasCostStep := Hash_Big val\<rparr>)
         else Inl (ErrUnknownFieldKey i))"

definition GetFeeConfig :: "Params \<Rightarrow> StateDB \<Rightarrow> error + FeeConfig" where
  "GetFeeConfig p stateDB =
     (if \<not> Exist stateDB (FeeConfigManagerAddress p) then Inr emptyFeeConfig
      else GetFeeConfig_loop p stateDB [minKey..<Suc maxKey] emptyFeeConfig)"

text \<open>
  The \<^verbatim>\<open>switch\<close> of \<^verbatim>\<open>setFeeConfig\<close>: the hash to store for field number \<open>i\<close>.
\<close>

definition feeConfigHashInput :: "FeeConfig \<Rightarrow> nat \<Rightarrow> error + Hash" where
  "feeConfigHashInput feeConfig i =
     (if i = gasLimitKey then BigToHash (GasLimit feeConfig)
      else if i = targetBlockRateKey then BigToHash (TargetBlockRate feeConfig)
      else if i = minBaseFeeKey then BigToHash (MinBaseFee feeConfig)
      else if i = targetGasKey then BigToHash (TargetGas feeConfig)
      else if i = baseFeeChangeDenominatorKey then BigToHash (BaseFeeChangeDenominator feeConfig)
      else if i = minBlockGasCostKey then BigToHash (MinBlockGasCost feeConfig)
      else if i = maxBlockGasCostKey then BigToHash (MaxBlockGasCost feeConfig)
      else if i = blockGasCostStepKey then BigToHash (BlockGasCostStep feeConfig)
      else Inl (ErrUnknownFieldKey i))"

text \<open>
  The loop of \<^verbatim>\<open>setFeeConfig\<close>. The state is written in place, so the result carries
  the state reached together with the error, if any.
\<close>

fun setFeeConfig_loop :: "Params \<Rightarrow> FeeConfig \<Rightarrow> nat list \<Rightarrow> StateDB \<Rightarrow> error option \<times> StateDB" where
  "setFeeConfig_loop p feeConfig [] stateDB = (None, stateDB)"
| "setFeeConfig_loop p feeConfig (i # rest) stateDB =
     (case feeConfigHashInput feeConfig i of
        Inl e \<Rightarrow> (Some e, stateDB)
      | Inr hashInput \<Rightarrow>
          setFeeConfig_loop p feeConfig rest
            (SetState stateDB (FeeConfigManagerAddress p) (feeConfigKey i) hashInput))"

definition setFeeConfig :: "Params \<Rightarrow> StateDB \<Rightarrow> FeeConfig \<Rightarrow> error option \<times> StateDB" where
  "setFeeConfig p stateDB feeConfig = setFeeConfig_loop p feeConfig [minKey..<Suc maxKey] stateDB"

text \<open>
  \<^verbatim>\<open>createSetFeeConfig\<close> discards the error returned by \<^verbatim>\<open>setFeeConfig\<close>; only a
  panic would leave the handler.
\<close>

definition createSetFeeConfig ::
  "Params \<Rightarrow> StateDB \<Rightarrow> Address \<Rightarrow> Address \<Rightarrow> bytes \<Rightarrow> 64 word \<Rightarrow> bool \<Rightarrow> CallResult \<times> StateDB" where
  "createSetFeeConfig p stateDB caller addr input suppliedGas readOnly =
     (case deductGas suppliedGas (SetFeeConfigGasCost p) of
        (_, Some e) \<Rightarrow> (\<lparr>ret = [], remainingGas = 0, err = Some e\<rparr>, stateDB)
      | (remaining, None) \<Rightarrow>
          if readOnly then (\<lparr>ret = [], remainingGas = remaining, err = Some ErrWriteProtection\<rparr>, stateDB)
          else
            (case UnpackFeeConfigInput input of
               Inl e \<Rightarrow> (\<lparr>ret = [], remainingGas = remaining, err = Some e\<rparr>, stateDB)
             | Inr feeConfig \<Rightarrow>
                 if \<not> IsEnabled (getAllowListStatus stateDB (FeeConfigManagerAddress p) caller)
                 then (\<lparr>ret = [], remainingGas = remaining, err = Some (ErrCannotChangeFee caller)\<rparr>,
                       stateDB)
                 else
                   (case setFeeConfig p stateDB feeConfig of
                      (Some GoPanic, stateDB') \<Rightarrow>
                        (\<lparr>ret = [], remainingGas = remaining, err = Some GoPanic\<rparr>, stateDB')
                    | (_, stateDB') \<Rightarrow>
                        (\<lparr>ret = [], remainingGas = remaining, err = None\<rparr>, stateDB'))))"

subsection \<open>The xChainECRecover stub\<close>

text \<open>
  The two handlers of the stub; their \<^verbatim>\<open>log.Info\<close> calls write to the node's log
  only and are left out. \<^verbatim>\<open>[]byte(string(input[:]))\<close> copies the bytes unchanged.
\<close>

definition createXChainECRecover ::
  "Params \<Rightarrow> StateDB \<Rightarrow> Address \<Rightarrow> Address \<Rightarrow> bytes \<Rightarrow> 64 word \<Rightarrow> bool \<Rightarrow> CallResult \<times> StateDB" where
  "createXChainECRecover p stateDB caller addr input suppliedGas readOnly =
     (case deductGas suppliedGas (MintGasCost p) of
        (_, Some e) \<Rightarrow> (\<lparr>ret = [], remainingGas = 0, err = Some e\<rparr>, stateDB)
      | (remaining, None) \<Rightarrow>
          if readOnly then (\<lparr>ret = [], remainingGas = remaining, err = Some ErrWriteProtection\<rparr>, stateDB)
          else (\<lparr>ret = input, remainingGas = remaining, err = None\<rparr>, stateDB))"

definition getXChainECRecover ::
  "Params \<Rightarrow> Address \<Rightarrow> StateDB \<Rightarrow> Address \<Rightarrow> Address \<Rightarrow> bytes \<Rightarrow> 64 word \<Rightarrow> bool
   \<Rightarrow> CallResult \<times> StateDB" where
  "getXChainECRecover p precompileAddr stateDB callerAddr addr input suppliedGas readOnly =
     (case deductGas suppliedGas (ReadAllowListGasCost p) of
        (_, Some e) \<Rightarrow> (\<lparr>ret = [], remainingGas = 0, err = Some e\<rparr>, stateDB)
      | (remaining, None) \<Rightarrow> (\<lparr>ret = input, remainingGas = remaining, err = None\<rparr>, stateDB))"

subsection \<open>A concrete configuration\<close>

text \<open>
  An instance of the parameters for evaluating the handlers on concrete calls; the
  selectors are the first four bytes of the Keccak-256 hashes of the two signatures.
\<close>

definition exampleParams :: Params where
  "exampleParams =
     \<lparr>MintGasCost = 30000, SetFeeConfigGasCost = 30000, ReadAllowListGasCost = 5000,
      ModifyAllowListGasCost = 20000,
      ContractNativeMinterAddress = 2 # replicate 18 0 @ [1],
      FeeConfigManagerAddress = 2 # replicate 18 0 @ [3],
      mintSignature = [0x4f, 0x5a, 0xaa, 0xba],
      setFeeConfigSignature = [0x8f, 0x10, 0xb5, 0x86]\<rparr>"

text \<open>
  A state in which the address \<open>0x0909..09\<close> is an admin of the fee config manager,
  and the largest 256-bit value.
\<close>

definition exampleFeeState :: StateDB where
  "exampleFeeState =
     setAllowListRole Map.empty (FeeConfigManagerAddress exampleParams) (replicate 20 9) AllowListAdmin"

definition maxUint256 :: int where
  "maxUint256 = 2 ^ 256 - 1"

text \<open>
  A state in which the address \<open>0x0909..09\<close> is enabled on the native minter and
  has no role on the fee config manager.
\<close>

definition exampleMinterState :: StateDB where
  "exampleMinterState =
     setAllowListRole Map.empty (ContractNativeMinterAddress exampleParams) (replicate 20 9)
       AllowListEnabled"

text \<open>The state database without any account.\<close>

definition emptyStateDB :: StateDB where
  "emptyStateDB = Map.empty"

section \<open>Properties\<close>

subsection \<open>Big-endian encoding and decoding\<close>

lemma Int_SetBytes_snoc: "Int_SetBytes (xs @ [x]) = Int_SetBytes xs * 256 + uint x"
  by (simp add: Int_SetBytes_def)

lemma Int_SetBytes_zeros: "Int_SetBytes (replicate k 0 @ bs) = Int_SetBytes bs"
  by (induction k) (simp_all add: Int_SetBytes_def)

lemma Int_SetBytes_nat_bytes: "Int_SetBytes (nat_bytes n) = int n"
proof (induction n rule: nat_bytes.induct)
  case (1 n)
  show ?case
  proof (cases "n = 0")
    case True
    then show ?thesis by (simp add: nat_bytes.simps Int_SetBytes_def)
  next
    case False
    have u: "uint (of_nat (n mod 256) :: 8 word) = int (n mod 256)"
      by (simp add: uint_nat unat_of_nat zmod_int)
    have "Int_SetBytes (nat_bytes n) = Int_SetBytes (nat_bytes (n div 256)) * 256 + int (n mod 256)"
      using False u by (subst nat_bytes.simps) (simp add: Int_SetBytes_snoc)
    also have "\<dots> = int (n div 256) * 256 + int (n mod 256)"
      using 1 False by simp
    also have "\<dots> = int n"
      by (simp add: zdiv_int zmod_int)
    finally show ?thesis .
  qed
qed

lemma length_nat_bytes: "n < 256 ^ k \<Longrightarrow> length (nat_bytes n) \<le> k"
proof (induction n arbitrary: k rule: nat_bytes.induct)
  case (1 n)
  show ?case
  proof (cases "n = 0")
    case True
    then show ?thesis by (simp add: nat_bytes.simps)
  next
    case False
    then obtain k' where k: "k = Suc k'"
      using 1(2) by (cases k) auto
    have "n div 256 < 256 ^ k'"
      using 1(2) k by (simp add: less_mult_imp_div_less mult.commute)
    then have "length (nat_bytes (n div 256)) \<le> k'"
      using 1(1) False by simp
    then show ?thesis
      using False k by (subst nat_bytes.simps) simp
  qed
qed

lemma length_nat_bytes_conv: "length (nat_bytes n) \<le> k \<Longrightarrow> n < 256 ^ k"
proof (induction n arbitrary: k rule: nat_bytes.induct)
  case (1 n)
  show ?case
  proof (cases "n = 0")
    case True
    then show ?thesis by simp
  next
    case False
    have len: "length (nat_bytes n) = Suc (length (nat_bytes (n div 256)))"
      using False by (subst nat_bytes.simps) simp
    then obtain k' where k: "k = Suc k'"
      using 1(2) by (cases k) auto
    have "n div 256 < 256 ^ k'"
      using 1(1)[OF False, of k'] 1(2) len k by simp
    then show ?thesis
      using k by (simp add: div_less_iff_less_mult mult.commute)
  qed
qed


lemma Int_Bytes_length: "0 \<le> v \<Longrightarrow> v < 2 ^ 256 \<Longrightarrow> length (Int_Bytes v) \<le> 32"
proof -
  assume a: "0 \<le> v" "v < 2 ^ 256"
  have "nat \<bar>v\<bar> < 256 ^ 32"
    using a by (simp add: nat_less_iff)
  then show ?thesis
    unfolding Int_Bytes_def by (rule length_nat_bytes)
qed

lemma Int_SetBytes_Int_Bytes: "0 \<le> v \<Longrightarrow> Int_SetBytes (Int_Bytes v) = v"
  by (simp add: Int_Bytes_def Int_SetBytes_nat_bytes)

lemma FillBytes_in_range:
  assumes "0 \<le> v" "v < 2 ^ 256"
  shows "FillBytes (Some v) 32 = Inr (replicate (32 - length (Int_Bytes v)) 0 @ Int_Bytes v)"
  using Int_Bytes_length [OF assms] by (simp add: FillBytes_def Let_def)

lemma BytesToHash_in_range:
  assumes "0 \<le> v" "v < 2 ^ 256"
  shows "BytesToHash (Int_Bytes v) = replicate (32 - length (Int_Bytes v)) 0 @ Int_Bytes v"
  using Int_Bytes_length [OF assms] by (simp add: BytesToHash_def HashLength_def Let_def)

lemma length_padded: "length b \<le> n \<Longrightarrow> length (replicate (n - length b) (0::byte) @ b) = n"
  by simp

lemma Address_Hash_20: "length a = 20 \<Longrightarrow> Address_Hash a = replicate 12 0 @ a"
  by (simp add: Address_Hash_def BytesToHash_def HashLength_def Let_def)

lemma BytesToAddress_32: "length w = 32 \<Longrightarrow> BytesToAddress w = drop 12 w"
  by (simp add: BytesToAddress_def AddressLength_def Let_def)

subsection \<open>Packing and unpacking the mint arguments\<close>

lemma returnPackedElement_ok:
  "32 * i + 32 \<le> length packed \<Longrightarrow> returnPackedElement packed i = Inr (take 32 (drop (32 * i) packed))"
  by (simp add: returnPackedElement_def HashLength_def Let_def)

lemma UnpackMintInput_64:
  "length input = 64 \<Longrightarrow>
   UnpackMintInput input = Inr (drop 12 (take 32 input), Some (Int_SetBytes (drop 32 input)))"
  by (simp add: UnpackMintInput_def mintInputLen_def HashLength_def bindE_def
      returnPackedElement_ok BytesToAddress_32)

lemma UnpackMintInput_parts:
  assumes "length z = 12" and "length t = 20" and "length f = 32"
  shows "UnpackMintInput (z @ t @ f) = Inr (t, Some (Int_SetBytes f))"
proof -
  have "length (z @ t @ f) = 64"
    using assms by simp
  then have "UnpackMintInput (z @ t @ f)
      = Inr (drop 12 (take 32 (z @ t @ f)), Some (Int_SetBytes (drop 32 (z @ t @ f))))"
    by (rule UnpackMintInput_64)
  then show ?thesis
    using assms by simp
qed

text \<open>
  Claim C2. For every 20-byte address \<open>to\<close> and every amount in \<open>[0, 2^256)\<close>,
  \<^verbatim>\<open>PackMintInput\<close> succeeds (the selector being 4 bytes long), and
  \<^verbatim>\<open>UnpackMintInput\<close> applied to its output without the leading 4 bytes returns
  exactly \<open>(to, amount)\<close> and no error.
\<close>

theorem PackMintInput_roundtrip:
  assumes "length to = 20" and "0 \<le> amount" and "amount < 2 ^ 256"
    and "length (mintSignature p) = 4"
  shows "\<exists>packed. PackMintInput p to (Some amount) = Inr packed
           \<and> UnpackMintInput (drop 4 packed) = Inr (to, Some amount)"
proof -
  define fb where "fb = replicate (32 - length (Int_Bytes amount)) 0 @ Int_Bytes amount"
  have fill: "FillBytes (Some amount) 32 = Inr fb"
    unfolding fb_def by (rule FillBytes_in_range [OF assms(2,3)])
  have len_fb: "length fb = 32"
    unfolding fb_def using Int_Bytes_length [OF assms(2,3)] by simp
  have val_fb: "Int_SetBytes fb = amount"
    unfolding fb_def using assms(2) by (simp only: Int_SetBytes_zeros Int_SetBytes_Int_Bytes)
  have pack: "PackMintInput p to (Some amount) = Inr (mintSignature p @ replicate 12 0 @ to @ fb)"
    using assms(1,4) len_fb
    by (simp add: PackMintInput_def fill bindE_def inputPackOrdered_def Address_Hash_20
        selectorLen_def mintInputLen_def HashLength_def)
  have body: "drop 4 (mintSignature p @ replicate 12 0 @ to @ fb) = replicate 12 0 @ to @ fb"
    using assms(4) by simp
  have unp: "UnpackMintInput (replicate 12 0 @ to @ fb) = Inr (to, Some amount)"
    using UnpackMintInput_parts [of "replicate 12 0" to fb] assms(1) len_fb val_fb by simp
  show ?thesis
  proof (intro exI conjI)
    show "PackMintInput p to (Some amount) = Inr (mintSignature p @ replicate 12 0 @ to @ fb)"
      by (rule pack)
    show "UnpackMintInput (drop 4 (mintSignature p @ replicate 12 0 @ to @ fb)) = Inr (to, Some amount)"
      by (simp only: body unp)
  qed
qed



text \<open>
  The round trip at the address \<open>0x00..07\<close> with the amount 500, and at the address
  \<open>0xff..ff\<close> with the largest 256-bit amount.
\<close>

theorem PackMintInput_roundtrip_witness:
  "(\<exists>packed. PackMintInput exampleParams (replicate 19 0 @ [7]) (Some 500) = Inr packed
       \<and> UnpackMintInput (drop 4 packed) = Inr (replicate 19 0 @ [7], Some 500))
   \<and> (\<exists>packed. PackMintInput exampleParams (replicate 20 255) (Some maxUint256) = Inr packed
       \<and> UnpackMintInput (drop 4 packed) = Inr (replicate 20 255, Some maxUint256))"
proof -
  have sig: "length (mintSignature exampleParams) = 4"
    by (simp add: exampleParams_def)
  have len: "length (replicate 19 0 @ [7::byte]) = 20" "length (replicate 20 (255::byte)) = 20"
    by simp_all
  have a: "(0::int) \<le> 500" "(500::int) < 2 ^ 256"
    by simp_all
  have m: "0 \<le> maxUint256" "maxUint256 < 2 ^ 256"
    by (simp_all add: maxUint256_def)
  show ?thesis
    by (intro conjI PackMintInput_roundtrip [OF len(1) a sig]
        PackMintInput_roundtrip [OF len(2) m sig])
qed

subsection \<open>Input lengths\<close>

lemma UnpackFeeConfigInput_256:
  assumes "length input = 256"
  shows "UnpackFeeConfigInput input =
     Inr \<lparr>GasLimit = Some (Int_SetBytes (take 32 input)),
          TargetBlockRate = Some (Int_SetBytes (take 32 (drop 32 input))),
          MinBaseFee = Some (Int_SetBytes (take 32 (drop 64 input))),
          TargetGas = Some (Int_SetBytes (take 32 (drop 96 input))),
          BaseFeeChangeDenominator = Some (Int_SetBytes (take 32 (drop 128 input))),
          MinBlockGasCost = Some (Int_SetBytes (take 32 (drop 160 input))),
          MaxBlockGasCost = Some (Int_SetBytes (take 32 (drop 192 input))),
          BlockGasCostStep = Some (Int_SetBytes (take 32 (drop 224 input)))\<rparr>"
  using assms
  by (simp add: UnpackFeeConfigInput_def feeConfigInputLen_def HashLength_def maxKey_def minKey_def
      blockGasCostStepKey_def gasLimitKey_def bindE_def returnPackedElement_ok)

lemma UnpackMintInput_not_64:
  "length input \<noteq> 64 \<Longrightarrow> UnpackMintInput input = Inl (ErrInvalidMintInputLength (length input))"
  by (simp add: UnpackMintInput_def mintInputLen_def HashLength_def)

lemma UnpackFeeConfigInput_not_256:
  "length input \<noteq> 256 \<Longrightarrow>
   UnpackFeeConfigInput input = Inl (ErrInvalidFeeConfigInputLength (length input))"
  by (simp add: UnpackFeeConfigInput_def feeConfigInputLen_def HashLength_def maxKey_def minKey_def
      blockGasCostStepKey_def gasLimitKey_def)

text \<open>
  Claim C7. \<^verbatim>\<open>UnpackMintInput\<close> fails with its invalid-input-length error exactly on
  the inputs whose length is not 64 and then returns no decoded values;
  \<^verbatim>\<open>UnpackFeeConfigInput\<close> does the same for the length 256; inputs of the required
  length are decoded without error.
\<close>

theorem Unpack_input_length:
  "(length input \<noteq> 64 \<longrightarrow> UnpackMintInput input = Inl (ErrInvalidMintInputLength (length input)))
   \<and> (length input = 64 \<longrightarrow> (\<exists>r. UnpackMintInput input = Inr r))
   \<and> (length input \<noteq> 256 \<longrightarrow>
        UnpackFeeConfigInput input = Inl (ErrInvalidFeeConfigInputLength (length input)))
   \<and> (length input = 256 \<longrightarrow> (\<exists>c. UnpackFeeConfigInput input = Inr c))"
  by (simp add: UnpackMintInput_not_64 UnpackFeeConfigInput_not_256 UnpackMintInput_64
      UnpackFeeConfigInput_256)

text \<open>Inputs of 63, 64 and 256 bytes.\<close>

theorem Unpack_input_length_witness:
  "UnpackMintInput (replicate 63 7) = Inl (ErrInvalidMintInputLength 63)
   \<and> UnpackFeeConfigInput (replicate 63 7) = Inl (ErrInvalidFeeConfigInputLength 63)
   \<and> (\<exists>r. UnpackMintInput (replicate 64 7) = Inr r)
   \<and> UnpackFeeConfigInput (replicate 64 7) = Inl (ErrInvalidFeeConfigInputLength 64)
   \<and> UnpackMintInput (replicate 256 7) = Inl (ErrInvalidMintInputLength 256)
   \<and> (\<exists>c. UnpackFeeConfigInput (replicate 256 7) = Inr c)"
  using Unpack_input_length [of "replicate 63 7"] Unpack_input_length [of "replicate 64 7"]
    Unpack_input_length [of "replicate 256 7"]
  by simp

text \<open>
  Claim C10. Every 64-byte input, split into its first 12 bytes \<open>hi\<close> and the other
  52 bytes, is decoded without error: \<open>to\<close> is the low 20 bytes of the first 32-byte
  word and the amount is the second word. The first 12 bytes are not examined, so two
  inputs that differ only there decode to the same pair.
\<close>

theorem UnpackMintInput_high_bytes_discarded:
  assumes "length hi = 12" and "length hi' = 12" and "length rest = 52"
  shows "UnpackMintInput (hi @ rest) = Inr (take 20 rest, Some (Int_SetBytes (drop 20 rest)))
         \<and> UnpackMintInput (hi' @ rest) = UnpackMintInput (hi @ rest)"
proof -
  have "UnpackMintInput (h @ rest) = Inr (take 20 rest, Some (Int_SetBytes (drop 20 rest)))"
    if "length h = 12" for h
    using that assms(3) by (simp add: UnpackMintInput_64)
  then show ?thesis
    using assms(1,2) by simp
qed

text \<open>High bytes all \<open>0x00\<close> against all \<open>0xff\<close>: the same address and amount.\<close>

theorem UnpackMintInput_high_bytes_discarded_witness:
  "UnpackMintInput (replicate 12 0 @ replicate 19 0 @ [7] @ replicate 30 0 @ [1, 244])
     = Inr (replicate 19 0 @ [7], Some 500)
   \<and> UnpackMintInput (replicate 12 255 @ replicate 19 0 @ [7] @ replicate 30 0 @ [1, 244])
     = Inr (replicate 19 0 @ [7], Some 500)"
  using UnpackMintInput_high_bytes_discarded [of "replicate 12 0" "replicate 12 255"
      "replicate 19 0 @ [7] @ replicate 30 0 @ [1, 244]"]
    Int_SetBytes_zeros [of 30 "[1, 244]"]
  by (simp add: Int_SetBytes_def)

subsection \<open>Gas, read-only and permission checks of the handlers\<close>

lemma deductGas_low: "suppliedGas < requiredGas \<Longrightarrow> deductGas suppliedGas requiredGas = (0, Some ErrOutOfGas)"
  by (simp add: deductGas_def)

lemma deductGas_enough:
  "requiredGas \<le> suppliedGas \<Longrightarrow> deductGas suppliedGas requiredGas = (suppliedGas - requiredGas, None)"
  by (simp add: deductGas_def not_less)

text \<open>
  Claim C4. Whatever the input, the caller and the read-only flag: a handler (mint,
  setFeeConfig, a role setter, the allow-list reader, and the two stub handlers) that is
  given less gas than its fixed cost fails with OutOfGas, returns zero remaining gas and
  leaves the state as it was.
\<close>

theorem handlers_out_of_gas:
  "(suppliedGas < MintGasCost p \<longrightarrow>
      createMintNativeCoin p stateDB caller addr input suppliedGas readOnly
        = (\<lparr>ret = [], remainingGas = 0, err = Some ErrOutOfGas\<rparr>, stateDB))
   \<and> (suppliedGas < SetFeeConfigGasCost p \<longrightarrow>
      createSetFeeConfig p stateDB caller addr input suppliedGas readOnly
        = (\<lparr>ret = [], remainingGas = 0, err = Some ErrOutOfGas\<rparr>, stateDB))
   \<and> (suppliedGas < ModifyAllowListGasCost p \<longrightarrow>
      createAllowListRoleSetter p precompileAddr role stateDB caller addr input suppliedGas readOnly
        = (\<lparr>ret = [], remainingGas = 0, err = Some ErrOutOfGas\<rparr>, stateDB))
   \<and> (suppliedGas < ReadAllowListGasCost p \<longrightarrow>
      createReadAllowList p precompileAddr stateDB caller addr input suppliedGas readOnly
        = (\<lparr>ret = [], remainingGas = 0, err = Some ErrOutOfGas\<rparr>, stateDB))
   \<and> (suppliedGas < MintGasCost p \<longrightarrow>
      createXChainECRecover p stateDB caller addr input suppliedGas readOnly
        = (\<lparr>ret = [], remainingGas = 0, err = Some ErrOutOfGas\<rparr>, stateDB))
   \<and> (suppliedGas < ReadAllowListGasCost p \<longrightarrow>
      getXChainECRecover p precompileAddr stateDB caller addr input suppliedGas readOnly
        = (\<lparr>ret = [], remainingGas = 0, err = Some ErrOutOfGas\<rparr>, stateDB))"
  by (simp add: createMintNativeCoin_def createSetFeeConfig_def createAllowListRoleSetter_def
      createReadAllowList_def createXChainECRecover_def getXChainECRecover_def deductGas_low)

text \<open>Each handler called with one unit of gas less than its cost.\<close>

theorem handlers_out_of_gas_witness:
  "createMintNativeCoin exampleParams Map.empty (replicate 20 9) (ContractNativeMinterAddress exampleParams)
       [1, 2, 3] 29999 False
     = (\<lparr>ret = [], remainingGas = 0, err = Some ErrOutOfGas\<rparr>, Map.empty)
   \<and> createSetFeeConfig exampleParams Map.empty (replicate 20 9) (ContractNativeMinterAddress exampleParams)
       [1, 2, 3] 29999 False
     = (\<lparr>ret = [], remainingGas = 0, err = Some ErrOutOfGas\<rparr>, Map.empty)
   \<and> createXChainECRecover exampleParams Map.empty (replicate 20 9) (ContractNativeMinterAddress exampleParams)
       [1, 2, 3] 29999 False
     = (\<lparr>ret = [], remainingGas = 0, err = Some ErrOutOfGas\<rparr>, Map.empty)
   \<and> createAllowListRoleSetter exampleParams (ContractNativeMinterAddress exampleParams) AllowListAdmin
       Map.empty (replicate 20 9) (ContractNativeMinterAddress exampleParams) [1, 2, 3] 4999 False
     = (\<lparr>ret = [], remainingGas = 0, err = Some ErrOutOfGas\<rparr>, Map.empty)
   \<and> createReadAllowList exampleParams (ContractNativeMinterAddress exampleParams)
       Map.empty (replicate 20 9) (ContractNativeMinterAddress exampleParams) [1, 2, 3] 4999 False
     = (\<lparr>ret = [], remainingGas = 0, err = Some ErrOutOfGas\<rparr>, Map.empty)
   \<and> getXChainECRecover exampleParams (ContractNativeMinterAddress exampleParams)
       Map.empty (replicate 20 9) (ContractNativeMinterAddress exampleParams) [1, 2, 3] 4999 False
     = (\<lparr>ret = [], remainingGas = 0, err = Some ErrOutOfGas\<rparr>, Map.empty)"
  using handlers_out_of_gas [of 29999 exampleParams Map.empty "replicate 20 9"
      "ContractNativeMinterAddress exampleParams" "[1, 2, 3]" False
      "ContractNativeMinterAddress exampleParams" AllowListAdmin]
    handlers_out_of_gas [of 4999 exampleParams Map.empty "replicate 20 9"
      "ContractNativeMinterAddress exampleParams" "[1, 2, 3]" False
      "ContractNativeMinterAddress exampleParams" AllowListAdmin]
  by (simp add: exampleParams_def)

text \<open>
  Claim C5. Whatever the input and the caller: mint and setFeeConfig called with
  \<open>readOnly = true\<close> and enough gas fail with WriteProtection, leave the state as it
  was and return the supplied gas minus the fixed cost. The input is arbitrary, so the
  check comes before the arguments are decoded.
\<close>

theorem write_handlers_read_only:
  "(MintGasCost p \<le> suppliedGas \<longrightarrow>
      createMintNativeCoin p stateDB caller addr input suppliedGas True
        = (\<lparr>ret = [], remainingGas = suppliedGas - MintGasCost p, err = Some ErrWriteProtection\<rparr>,
           stateDB))
   \<and> (SetFeeConfigGasCost p \<le> suppliedGas \<longrightarrow>
      createSetFeeConfig p stateDB caller addr input suppliedGas True
        = (\<lparr>ret = [], remainingGas = suppliedGas - SetFeeConfigGasCost p,
            err = Some ErrWriteProtection\<rparr>, stateDB))"
  by (simp add: createMintNativeCoin_def createSetFeeConfig_def deductGas_enough)

text \<open>Read-only calls with a malformed and with a well-formed body.\<close>

theorem write_handlers_read_only_witness:
  "createMintNativeCoin exampleParams Map.empty (replicate 20 9) (ContractNativeMinterAddress exampleParams)
       [1, 2, 3] 30001 True
     = (\<lparr>ret = [], remainingGas = 1, err = Some ErrWriteProtection\<rparr>, Map.empty)
   \<and> createSetFeeConfig exampleParams Map.empty (replicate 20 9) (FeeConfigManagerAddress exampleParams)
       (replicate 256 0) 30001 True
     = (\<lparr>ret = [], remainingGas = 1, err = Some ErrWriteProtection\<rparr>, Map.empty)"
  using write_handlers_read_only [where p = exampleParams and suppliedGas = 30001
      and stateDB = Map.empty and caller = "replicate 20 9"
      and addr = "ContractNativeMinterAddress exampleParams" and input = "[1, 2, 3]"]
    write_handlers_read_only [where p = exampleParams and suppliedGas = 30001
      and stateDB = Map.empty and caller = "replicate 20 9"
      and addr = "FeeConfigManagerAddress exampleParams" and input = "replicate 256 0"]
  by (simp add: exampleParams_def)

text \<open>
  Claim C9, as amended. With enough gas, the write-styled stub handler called with
  \<open>readOnly = false\<close> and the read-styled stub handler called with any read-only flag
  deduct their fixed gas cost and return the input bytes unchanged, leaving the state as
  it was; the write-styled handler called with \<open>readOnly = true\<close> fails with
  WriteProtection and returns no output.
\<close>

theorem stub_returns_input:
  "(MintGasCost p \<le> suppliedGas \<longrightarrow>
      createXChainECRecover p stateDB caller addr input suppliedGas False
        = (\<lparr>ret = input, remainingGas = suppliedGas - MintGasCost p, err = None\<rparr>, stateDB)
      \<and> createXChainECRecover p stateDB caller addr input suppliedGas True
        = (\<lparr>ret = [], remainingGas = suppliedGas - MintGasCost p, err = Some ErrWriteProtection\<rparr>,
           stateDB))
   \<and> (ReadAllowListGasCost p \<le> suppliedGas \<longrightarrow>
      getXChainECRecover p precompileAddr stateDB caller addr input suppliedGas readOnly
        = (\<lparr>ret = input, remainingGas = suppliedGas - ReadAllowListGasCost p, err = None\<rparr>,
           stateDB))"
  by (simp add: createXChainECRecover_def getXChainECRecover_def deductGas_enough)

text \<open>Both stub handlers on the input \<open>[1, 2, 3]\<close>.\<close>

theorem stub_returns_input_witness:
  "createXChainECRecover exampleParams Map.empty (replicate 20 9) (replicate 20 5) [1, 2, 3] 30001 False
     = (\<lparr>ret = [1, 2, 3], remainingGas = 1, err = None\<rparr>, Map.empty)
   \<and> createXChainECRecover exampleParams Map.empty (replicate 20 9) (replicate 20 5) [1, 2, 3] 30001 True
     = (\<lparr>ret = [], remainingGas = 1, err = Some ErrWriteProtection\<rparr>, Map.empty)
   \<and> getXChainECRecover exampleParams (replicate 20 5) Map.empty (replicate 20 9) (replicate 20 5)
       [1, 2, 3] 30001 True
     = (\<lparr>ret = [1, 2, 3], remainingGas = 25001, err = None\<rparr>, Map.empty)"
  using stub_returns_input [where p = exampleParams and suppliedGas = 30001
      and stateDB = Map.empty and caller = "replicate 20 9" and addr = "replicate 20 5"
      and input = "[1, 2, 3]" and precompileAddr = "replicate 20 5" and readOnly = True]
  by (simp add: exampleParams_def)

text \<open>
  Claim C9 as stated fails: in a read-only call with enough gas the write-styled stub
  handler does not return its input.
\<close>

theorem stub_read_only_counterexample:
  "ret (fst (createXChainECRecover exampleParams emptyStateDB (replicate 20 9) (replicate 20 5)
         [1, 2, 3] 30001 True)) \<noteq> [1, 2, 3]
   \<and> err (fst (createXChainECRecover exampleParams emptyStateDB (replicate 20 9) (replicate 20 5)
         [1, 2, 3] 30001 True)) = Some ErrWriteProtection
   \<and> MintGasCost exampleParams \<le> 30001"
  by (simp add: createXChainECRecover_def deductGas_def exampleParams_def)

subsection \<open>Permission and minting\<close>

lemma replicate_numeral: "replicate (numeral k) x = x # replicate (pred_numeral k) x"
  by (simp add: numeral_eq_Suc)

lemma IsEnabled_iff: "IsEnabled r \<longleftrightarrow> r \<noteq> AllowListNoRole"
  by (cases r) (simp_all add: IsEnabled_def)

text \<open>
  Claim C6. A caller whose role on the called contract is None (the only role that is
  not enabled), whatever its role on any other contract: a mint call with a 64-byte body,
  or a setFeeConfig call with a 256-byte body, not read-only and with enough gas, is
  refused with the permission error of the handler; the state is returned as it was, so
  no balance is added and the stored fee configuration is what it was before.
\<close>

theorem non_enabled_caller_denied:
  "(getAllowListStatus stateDB (ContractNativeMinterAddress p) caller = AllowListNoRole \<longrightarrow>
    MintGasCost p \<le> mintGas \<longrightarrow> length mintInput = 64 \<longrightarrow>
      createMintNativeCoin p stateDB caller addr mintInput mintGas False
        = (\<lparr>ret = [], remainingGas = mintGas - MintGasCost p, err = Some (ErrCannotMint caller)\<rparr>,
           stateDB)
      \<and> GetBalance (snd (createMintNativeCoin p stateDB caller addr mintInput mintGas False)) a
        = GetBalance stateDB a
      \<and> GetFeeConfig p (snd (createMintNativeCoin p stateDB caller addr mintInput mintGas False))
        = GetFeeConfig p stateDB)
   \<and> (getAllowListStatus stateDB (FeeConfigManagerAddress p) caller = AllowListNoRole \<longrightarrow>
    SetFeeConfigGasCost p \<le> feeGas \<longrightarrow> length feeInput = 256 \<longrightarrow>
      createSetFeeConfig p stateDB caller addr' feeInput feeGas False
        = (\<lparr>ret = [], remainingGas = feeGas - SetFeeConfigGasCost p,
            err = Some (ErrCannotChangeFee caller)\<rparr>, stateDB)
      \<and> GetBalance (snd (createSetFeeConfig p stateDB caller addr' feeInput feeGas False)) a
        = GetBalance stateDB a
      \<and> GetFeeConfig p (snd (createSetFeeConfig p stateDB caller addr' feeInput feeGas False))
        = GetFeeConfig p stateDB)
   \<and> (\<forall>r. \<not> IsEnabled r \<longleftrightarrow> r = AllowListNoRole)"
proof (intro conjI impI)
  assume "getAllowListStatus stateDB (ContractNativeMinterAddress p) caller = AllowListNoRole"
    and "MintGasCost p \<le> mintGas" and "length mintInput = 64"
  then have m: "createMintNativeCoin p stateDB caller addr mintInput mintGas False
      = (\<lparr>ret = [], remainingGas = mintGas - MintGasCost p, err = Some (ErrCannotMint caller)\<rparr>,
         stateDB)"
    by (simp add: createMintNativeCoin_def deductGas_enough UnpackMintInput_64 IsEnabled_def)
  show "createMintNativeCoin p stateDB caller addr mintInput mintGas False
      = (\<lparr>ret = [], remainingGas = mintGas - MintGasCost p, err = Some (ErrCannotMint caller)\<rparr>,
         stateDB)"
    by (rule m)
  show "GetBalance (snd (createMintNativeCoin p stateDB caller addr mintInput mintGas False)) a
      = GetBalance stateDB a"
    by (simp add: m)
  show "GetFeeConfig p (snd (createMintNativeCoin p stateDB caller addr mintInput mintGas False))
      = GetFeeConfig p stateDB"
    by (simp add: m)
next
  assume "getAllowListStatus stateDB (FeeConfigManagerAddress p) caller = AllowListNoRole"
    and "SetFeeConfigGasCost p \<le> feeGas" and "length feeInput = 256"
  then have f: "createSetFeeConfig p stateDB caller addr' feeInput feeGas False
      = (\<lparr>ret = [], remainingGas = feeGas - SetFeeConfigGasCost p,
          err = Some (ErrCannotChangeFee caller)\<rparr>, stateDB)"
    by (simp add: createSetFeeConfig_def deductGas_enough UnpackFeeConfigInput_256 IsEnabled_def)
  show "createSetFeeConfig p stateDB caller addr' feeInput feeGas False
      = (\<lparr>ret = [], remainingGas = feeGas - SetFeeConfigGasCost p,
          err = Some (ErrCannotChangeFee caller)\<rparr>, stateDB)"
    by (rule f)
  show "GetBalance (snd (createSetFeeConfig p stateDB caller addr' feeInput feeGas False)) a
      = GetBalance stateDB a"
    by (simp add: f)
  show "GetFeeConfig p (snd (createSetFeeConfig p stateDB caller addr' feeInput feeGas False))
      = GetFeeConfig p stateDB"
    by (simp add: f)
next
  show "\<forall>r. \<not> IsEnabled r \<longleftrightarrow> r = AllowListNoRole"
    by (simp add: IsEnabled_iff)
qed

text \<open>
  The caller \<open>0x0909..09\<close> is an admin of the fee config manager but has no role on
  the native minter: its mint call is refused. The same caller, enabled on the native
  minter but without role on the fee config manager, is refused by setFeeConfig. A
  caller without any role on the empty state is refused by both.
\<close>

theorem non_enabled_caller_denied_witness:
  "createMintNativeCoin exampleParams exampleFeeState (replicate 20 9)
       (ContractNativeMinterAddress exampleParams) (replicate 64 1) 30001 False
     = (\<lparr>ret = [], remainingGas = 1, err = Some (ErrCannotMint (replicate 20 9))\<rparr>, exampleFeeState)
   \<and> createSetFeeConfig exampleParams exampleMinterState (replicate 20 9)
       (FeeConfigManagerAddress exampleParams) (replicate 256 1) 30001 False
     = (\<lparr>ret = [], remainingGas = 1, err = Some (ErrCannotChangeFee (replicate 20 9))\<rparr>,
        exampleMinterState)
   \<and> createMintNativeCoin exampleParams emptyStateDB (replicate 20 9)
       (ContractNativeMinterAddress exampleParams) (replicate 64 1) 30001 False
     = (\<lparr>ret = [], remainingGas = 1, err = Some (ErrCannotMint (replicate 20 9))\<rparr>, emptyStateDB)
   \<and> createSetFeeConfig exampleParams emptyStateDB (replicate 20 9)
       (FeeConfigManagerAddress exampleParams) (replicate 256 1) 30001 False
     = (\<lparr>ret = [], remainingGas = 1, err = Some (ErrCannotChangeFee (replicate 20 9))\<rparr>,
        emptyStateDB)
   \<and> IsEnabled (getAllowListStatus exampleFeeState (FeeConfigManagerAddress exampleParams)
         (replicate 20 9))
   \<and> IsEnabled (getAllowListStatus exampleMinterState (ContractNativeMinterAddress exampleParams)
         (replicate 20 9))"
proof -
  let ?M = "ContractNativeMinterAddress exampleParams"
  let ?F = "FeeConfigManagerAddress exampleParams"
  have noneM: "getAllowListStatus exampleFeeState ?M (replicate 20 9) = AllowListNoRole"
    by code_simp
  have noneF: "getAllowListStatus exampleMinterState ?F (replicate 20 9) = AllowListNoRole"
    by code_simp
  have noneE: "getAllowListStatus emptyStateDB ?M (replicate 20 9) = AllowListNoRole"
    "getAllowListStatus emptyStateDB ?F (replicate 20 9) = AllowListNoRole"
    by code_simp+
  have enF: "IsEnabled (getAllowListStatus exampleFeeState ?F (replicate 20 9))"
    by code_simp
  have enM: "IsEnabled (getAllowListStatus exampleMinterState ?M (replicate 20 9))"
    by code_simp
  have gas: "MintGasCost exampleParams \<le> 30001" "SetFeeConfigGasCost exampleParams \<le> 30001"
    by (simp_all add: exampleParams_def)
  have rem: "30001 - MintGasCost exampleParams = 1" "30001 - SetFeeConfigGasCost exampleParams = 1"
    by (simp_all add: exampleParams_def)
  have len: "length (replicate 64 (1::byte)) = 64" "length (replicate 256 (1::byte)) = 256"
    by simp_all
  note d1 = non_enabled_caller_denied [where p = exampleParams and stateDB = exampleFeeState
      and caller = "replicate 20 9" and mintGas = 30001 and mintInput = "replicate 64 1"
      and addr = ?M, THEN conjunct1, rule_format, OF noneM gas(1) len(1), THEN conjunct1]
  note d2 = non_enabled_caller_denied [where p = exampleParams and stateDB = exampleMinterState
      and caller = "replicate 20 9" and feeGas = 30001 and feeInput = "replicate 256 1"
      and addr' = ?F, THEN conjunct2, THEN conjunct1, rule_format, OF noneF gas(2) len(2),
      THEN conjunct1]
  note d3 = non_enabled_caller_denied [where p = exampleParams and stateDB = emptyStateDB
      and caller = "replicate 20 9" and mintGas = 30001 and mintInput = "replicate 64 1"
      and addr = ?M, THEN conjunct1, rule_format, OF noneE(1) gas(1) len(1), THEN conjunct1]
  note d4 = non_enabled_caller_denied [where p = exampleParams and stateDB = emptyStateDB
      and caller = "replicate 20 9" and feeGas = 30001 and feeInput = "replicate 256 1"
      and addr' = ?F, THEN conjunct2, THEN conjunct1, rule_format, OF noneE(2) gas(2) len(2),
      THEN conjunct1]
  show ?thesis
    using d1 d2 d3 d4 enF enM by (simp only: rem simp_thms)
qed

lemma getOrNew_absent: "\<not> Exist s a \<Longrightarrow> getOrNew s a = newAccount"
  by (simp add: Exist_def getOrNew_def)

lemma GetBalance_absent: "\<not> Exist s a \<Longrightarrow> GetBalance s a = 0"
  by (simp add: GetBalance_def getOrNew_absent newAccount_def)

lemma GetBalance_CreateAccount: "GetBalance (CreateAccount s a) a = 0"
  by (simp add: GetBalance_def CreateAccount_def getOrNew_def newAccount_def)

lemma GetBalance_AddBalance: "GetBalance (AddBalance s a v) a = GetBalance s a + v"
  by (simp add: GetBalance_def AddBalance_def getOrNew_def)

lemma Exist_AddBalance: "Exist (AddBalance s a v) a"
  by (simp add: Exist_def AddBalance_def)

lemma AddBalance_other: "b \<noteq> a \<Longrightarrow> AddBalance s a v b = s b"
  by (simp add: AddBalance_def)

lemma CreateAccount_other: "b \<noteq> a \<Longrightarrow> CreateAccount s a b = s b"
  by (simp add: CreateAccount_def)

text \<open>
  Claim C3. A mint call that is not read-only, has at least \<open>MintGasCost\<close> gas, a
  64-byte body decoding to \<open>(to, amount)\<close> and an enabled caller creates the account
  \<open>to\<close> if it does not exist and then adds exactly \<open>amount\<close> to its balance (an
  account without prior record ends with balance \<open>amount\<close>); no other account
  changes; the handler returns empty output, no error and the supplied gas minus
  \<open>MintGasCost\<close>.
\<close>

theorem mint_adds_balance:
  assumes "MintGasCost p \<le> suppliedGas" and "length input = 64"
    and "IsEnabled (getAllowListStatus stateDB (ContractNativeMinterAddress p) caller)"
    and "to = take 20 (drop 12 input)" and "amount = Int_SetBytes (drop 32 input)"
    and "stateDB' = snd (createMintNativeCoin p stateDB caller addr input suppliedGas False)"
  shows "UnpackMintInput input = Inr (to, Some amount)
         \<and> fst (createMintNativeCoin p stateDB caller addr input suppliedGas False)
             = \<lparr>ret = [], remainingGas = suppliedGas - MintGasCost p, err = None\<rparr>
         \<and> stateDB' = AddBalance (if \<not> Exist stateDB to then CreateAccount stateDB to else stateDB) to amount
         \<and> Exist stateDB' to
         \<and> GetBalance stateDB' to = GetBalance stateDB to + amount
         \<and> (\<not> Exist stateDB to \<longrightarrow> GetBalance stateDB' to = amount)
         \<and> (\<forall>a. a \<noteq> to \<longrightarrow> stateDB' a = stateDB a)"
proof -
  have unp: "UnpackMintInput input = Inr (to, Some amount)"
    using assms(2,4,5) by (simp add: UnpackMintInput_64 drop_take)
  have run: "createMintNativeCoin p stateDB caller addr input suppliedGas False
      = (\<lparr>ret = [], remainingGas = suppliedGas - MintGasCost p, err = None\<rparr>,
         AddBalance (if \<not> Exist stateDB to then CreateAccount stateDB to else stateDB) to amount)"
    using assms(1,3) by (simp add: createMintNativeCoin_def deductGas_enough unp)
  have st: "stateDB' = AddBalance (if \<not> Exist stateDB to then CreateAccount stateDB to else stateDB) to amount"
    using assms(6) run by simp
  have bal: "GetBalance stateDB' to = GetBalance stateDB to + amount"
    by (cases "Exist stateDB to")
      (simp_all add: st GetBalance_AddBalance GetBalance_CreateAccount GetBalance_absent)
  have other: "\<forall>a. a \<noteq> to \<longrightarrow> stateDB' a = stateDB a"
    by (simp add: st AddBalance_other CreateAccount_other)
  have res: "fst (createMintNativeCoin p stateDB caller addr input suppliedGas False)
      = \<lparr>ret = [], remainingGas = suppliedGas - MintGasCost p, err = None\<rparr>"
    using run by simp
  have ex: "Exist stateDB' to"
    by (simp add: st Exist_AddBalance)
  have fresh: "\<not> Exist stateDB to \<longrightarrow> GetBalance stateDB' to = amount"
    using bal by (simp add: GetBalance_absent)
  show ?thesis
    by (intro conjI unp res st ex bal fresh other)
qed

text \<open>An enabled caller mints 500 to an address that has no account.\<close>

theorem mint_adds_balance_witness:
  "GetBalance (snd (createMintNativeCoin exampleParams
       (setAllowListRole Map.empty (ContractNativeMinterAddress exampleParams) (replicate 20 9)
          AllowListEnabled)
       (replicate 20 9) (ContractNativeMinterAddress exampleParams)
       (replicate 12 0 @ replicate 19 0 @ [7] @ replicate 30 0 @ [1, 244]) 30001 False))
     (replicate 19 0 @ [7]) = 500
   \<and> fst (createMintNativeCoin exampleParams
       (setAllowListRole Map.empty (ContractNativeMinterAddress exampleParams) (replicate 20 9)
          AllowListEnabled)
       (replicate 20 9) (ContractNativeMinterAddress exampleParams)
       (replicate 12 0 @ replicate 19 0 @ [7] @ replicate 30 0 @ [1, 244]) 30001 False)
     = \<lparr>ret = [], remainingGas = 1, err = None\<rparr>
   \<and> GetBalance (snd (createMintNativeCoin exampleParams
       (setAllowListRole Map.empty (ContractNativeMinterAddress exampleParams) (replicate 20 9)
          AllowListEnabled)
       (replicate 20 9) (ContractNativeMinterAddress exampleParams)
       (replicate 12 0 @ replicate 19 0 @ [7] @ replicate 30 0 @ [1, 244]) 30001 False))
     (replicate 20 9) = 0"
proof -
  let ?A = "ContractNativeMinterAddress exampleParams"
  let ?s = "setAllowListRole Map.empty ?A (replicate 20 9) AllowListEnabled"
  let ?input = "replicate 12 0 @ replicate 19 0 @ [7] @ replicate 30 0 @ [1, 244]"
  have en: "IsEnabled (getAllowListStatus ?s ?A (replicate 20 9))"
    by code_simp
  have gas: "MintGasCost exampleParams \<le> 30001"
    by (simp add: exampleParams_def)
  have len: "length ?input = 64"
    by simp
  have to: "replicate 19 0 @ [7] = take 20 (drop 12 ?input)"
    by simp
  have am: "500 = Int_SetBytes (drop 32 ?input)"
    using Int_SetBytes_zeros [of 30 "[1, 244]"] by (simp add: Int_SetBytes_def)
  have fresh: "\<not> Exist ?s (replicate 19 0 @ [7])"
    by code_simp
  note run = mint_adds_balance [OF gas len en to am refl, of "?A"]
  from run have res: "fst (createMintNativeCoin exampleParams ?s (replicate 20 9) ?A ?input 30001 False)
      = \<lparr>ret = [], remainingGas = 30001 - MintGasCost exampleParams, err = None\<rparr>"
    by (rule conjunct1 [OF conjunct2])
  from run fresh have bal: "GetBalance
      (snd (createMintNativeCoin exampleParams ?s (replicate 20 9) ?A ?input 30001 False))
      (replicate 19 0 @ [7]) = 500"
    by blast
  have other: "replicate 20 9 \<noteq> replicate 19 0 @ [7::byte]"
    by code_simp
  from run other have "snd (createMintNativeCoin exampleParams ?s (replicate 20 9) ?A ?input 30001 False)
      (replicate 20 9) = ?s (replicate 20 9)"
    by blast
  then have "GetBalance
      (snd (createMintNativeCoin exampleParams ?s (replicate 20 9) ?A ?input 30001 False))
      (replicate 20 9) = GetBalance ?s (replicate 20 9)"
    by (simp add: GetBalance_def getOrNew_def)
  also have "GetBalance ?s (replicate 20 9) = 0"
    by code_simp
  finally have caller: "GetBalance
      (snd (createMintNativeCoin exampleParams ?s (replicate 20 9) ?A ?input 30001 False))
      (replicate 20 9) = 0" .
  have "30001 - MintGasCost exampleParams = 1"
    by (simp add: exampleParams_def)
  with res bal caller show ?thesis
    by simp
qed

subsection \<open>The fee configuration\<close>

lemmas key_defs = gasLimitKey_def targetBlockRateKey_def minBaseFeeKey_def targetGasKey_def
  baseFeeChangeDenominatorKey_def minBlockGasCostKey_def maxBlockGasCostKey_def
  blockGasCostStepKey_def

lemma fee_config_keys: "[minKey..<Suc maxKey] = [0, 1, 2, 3, 4, 5, 6, 7]"
  by (simp add: minKey_def maxKey_def key_defs upt_rec)

lemma GetFeeConfig_loop_all:
  "GetFeeConfig_loop p s [0, 1, 2, 3, 4, 5, 6, 7] fc =
     Inr \<lparr>GasLimit = Hash_Big (GetState s (FeeConfigManagerAddress p) (feeConfigKey 0)),
          TargetBlockRate = Hash_Big (GetState s (FeeConfigManagerAddress p) (feeConfigKey 1)),
          MinBaseFee = Hash_Big (GetState s (FeeConfigManagerAddress p) (feeConfigKey 2)),
          TargetGas = Hash_Big (GetState s (FeeConfigManagerAddress p) (feeConfigKey 3)),
          BaseFeeChangeDenominator = Hash_Big (GetState s (FeeConfigManagerAddress p) (feeConfigKey 4)),
          MinBlockGasCost = Hash_Big (GetState s (FeeConfigManagerAddress p) (feeConfigKey 5)),
          MaxBlockGasCost = Hash_Big (GetState s (FeeConfigManagerAddress p) (feeConfigKey 6)),
          BlockGasCostStep = Hash_Big (GetState s (FeeConfigManagerAddress p) (feeConfigKey 7))\<rparr>"
  by (simp add: key_defs Let_def)

text \<open>
  Claim C8. When the fee config manager's account does not exist, \<^verbatim>\<open>GetFeeConfig\<close>
  returns the unset configuration \<^verbatim>\<open>FeeConfig{}\<close> (every field nil) and no error;
  when the account exists, it returns, without error, the eight fields read from the
  eight fixed storage keys \<open>feeConfigKey 0\<close>, ..., \<open>feeConfigKey 7\<close> in the fixed
  field order, each slot read as a big-endian unsigned integer.
\<close>

theorem GetFeeConfig_result:
  "(\<not> Exist stateDB (FeeConfigManagerAddress p) \<longrightarrow> GetFeeConfig p stateDB = Inr emptyFeeConfig)
   \<and> (Exist stateDB (FeeConfigManagerAddress p) \<longrightarrow>
        GetFeeConfig p stateDB =
          Inr \<lparr>GasLimit = Some (Int_SetBytes (GetState stateDB (FeeConfigManagerAddress p) (feeConfigKey 0))),
               TargetBlockRate = Some (Int_SetBytes (GetState stateDB (FeeConfigManagerAddress p) (feeConfigKey 1))),
               MinBaseFee = Some (Int_SetBytes (GetState stateDB (FeeConfigManagerAddress p) (feeConfigKey 2))),
               TargetGas = Some (Int_SetBytes (GetState stateDB (FeeConfigManagerAddress p) (feeConfigKey 3))),
               BaseFeeChangeDenominator =
                 Some (Int_SetBytes (GetState stateDB (FeeConfigManagerAddress p) (feeConfigKey 4))),
               MinBlockGasCost = Some (Int_SetBytes (GetState stateDB (FeeConfigManagerAddress p) (feeConfigKey 5))),
               MaxBlockGasCost = Some (Int_SetBytes (GetState stateDB (FeeConfigManagerAddress p) (feeConfigKey 6))),
               BlockGasCostStep =
                 Some (Int_SetBytes (GetState stateDB (FeeConfigManagerAddress p) (feeConfigKey 7)))\<rparr>)"
  unfolding GetFeeConfig_def fee_config_keys GetFeeConfig_loop_all
  by (simp add: Hash_Big_def)

lemma GetState_SetState:
  "GetState (SetState s a k v) a k' = (if k' = k then v else GetState s a k')"
  by (simp add: GetState_def SetState_def getOrNew_def)

lemma Exist_SetState: "Exist (SetState s a k v) a"
  by (simp add: Exist_def SetState_def)

lemma feeConfigKey_eq: "feeConfigKey i = feeConfigKey j \<longleftrightarrow> (of_nat i :: byte) = of_nat j"
  by (simp add: feeConfigKey_def)

lemma setFeeConfig_loop_all:
  "setFeeConfig_loop p
      \<lparr>GasLimit = Some v0, TargetBlockRate = Some v1, MinBaseFee = Some v2, TargetGas = Some v3,
       BaseFeeChangeDenominator = Some v4, MinBlockGasCost = Some v5, MaxBlockGasCost = Some v6,
       BlockGasCostStep = Some v7\<rparr> [0, 1, 2, 3, 4, 5, 6, 7] s =
   (None,
    SetState (SetState (SetState (SetState (SetState (SetState (SetState (SetState s
      (FeeConfigManagerAddress p) (feeConfigKey 0) (BytesToHash (Int_Bytes v0)))
      (FeeConfigManagerAddress p) (feeConfigKey 1) (BytesToHash (Int_Bytes v1)))
      (FeeConfigManagerAddress p) (feeConfigKey 2) (BytesToHash (Int_Bytes v2)))
      (FeeConfigManagerAddress p) (feeConfigKey 3) (BytesToHash (Int_Bytes v3)))
      (FeeConfigManagerAddress p) (feeConfigKey 4) (BytesToHash (Int_Bytes v4)))
      (FeeConfigManagerAddress p) (feeConfigKey 5) (BytesToHash (Int_Bytes v5)))
      (FeeConfigManagerAddress p) (feeConfigKey 6) (BytesToHash (Int_Bytes v6)))
      (FeeConfigManagerAddress p) (feeConfigKey 7) (BytesToHash (Int_Bytes v7)))"
  by (simp add: feeConfigHashInput_def key_defs BigToHash_def)

lemma Hash_Big_BytesToHash:
  assumes "0 \<le> v" "v < 2 ^ 256"
  shows "Hash_Big (BytesToHash (Int_Bytes v)) = Some v"
  using assms(1)
  by (simp add: Hash_Big_def BytesToHash_in_range [OF assms] Int_SetBytes_zeros Int_SetBytes_Int_Bytes)

lemma GetFeeConfig_after_set:
  assumes "0 \<le> v0" "v0 < 2 ^ 256" "0 \<le> v1" "v1 < 2 ^ 256" "0 \<le> v2" "v2 < 2 ^ 256"
    "0 \<le> v3" "v3 < 2 ^ 256" "0 \<le> v4" "v4 < 2 ^ 256" "0 \<le> v5" "v5 < 2 ^ 256"
    "0 \<le> v6" "v6 < 2 ^ 256" "0 \<le> v7" "v7 < 2 ^ 256"
  shows "GetFeeConfig p
    (SetState (SetState (SetState (SetState (SetState (SetState (SetState (SetState s
      (FeeConfigManagerAddress p) (feeConfigKey 0) (BytesToHash (Int_Bytes v0)))
      (FeeConfigManagerAddress p) (feeConfigKey 1) (BytesToHash (Int_Bytes v1)))
      (FeeConfigManagerAddress p) (feeConfigKey 2) (BytesToHash (Int_Bytes v2)))
      (FeeConfigManagerAddress p) (feeConfigKey 3) (BytesToHash (Int_Bytes v3)))
      (FeeConfigManagerAddress p) (feeConfigKey 4) (BytesToHash (Int_Bytes v4)))
      (FeeConfigManagerAddress p) (feeConfigKey 5) (BytesToHash (Int_Bytes v5)))
      (FeeConfigManagerAddress p) (feeConfigKey 6) (BytesToHash (Int_Bytes v6)))
      (FeeConfigManagerAddress p) (feeConfigKey 7) (BytesToHash (Int_Bytes v7)))
    = Inr \<lparr>GasLimit = Some v0, TargetBlockRate = Some v1, MinBaseFee = Some v2, TargetGas = Some v3,
       BaseFeeChangeDenominator = Some v4, MinBlockGasCost = Some v5, MaxBlockGasCost = Some v6,
       BlockGasCostStep = Some v7\<rparr>"
proof -
  note h = Hash_Big_BytesToHash [OF assms(1,2)] Hash_Big_BytesToHash [OF assms(3,4)]
    Hash_Big_BytesToHash [OF assms(5,6)] Hash_Big_BytesToHash [OF assms(7,8)]
    Hash_Big_BytesToHash [OF assms(9,10)] Hash_Big_BytesToHash [OF assms(11,12)]
    Hash_Big_BytesToHash [OF assms(13,14)] Hash_Big_BytesToHash [OF assms(15,16)]
  show ?thesis
    unfolding GetFeeConfig_def fee_config_keys GetFeeConfig_loop_all
    by (simp add: Exist_SetState GetState_SetState feeConfigKey_eq h)
qed


lemma UnpackFeeConfigInput_parts:
  assumes "length b0 = 32" "length b1 = 32" "length b2 = 32" "length b3 = 32"
    "length b4 = 32" "length b5 = 32" "length b6 = 32" "length b7 = 32"
  shows "UnpackFeeConfigInput (b0 @ b1 @ b2 @ b3 @ b4 @ b5 @ b6 @ b7) =
     Inr \<lparr>GasLimit = Some (Int_SetBytes b0), TargetBlockRate = Some (Int_SetBytes b1),
          MinBaseFee = Some (Int_SetBytes b2), TargetGas = Some (Int_SetBytes b3),
          BaseFeeChangeDenominator = Some (Int_SetBytes b4),
          MinBlockGasCost = Some (Int_SetBytes b5), MaxBlockGasCost = Some (Int_SetBytes b6),
          BlockGasCostStep = Some (Int_SetBytes b7)\<rparr>"
proof -
  have "length (b0 @ b1 @ b2 @ b3 @ b4 @ b5 @ b6 @ b7) = 256"
    using assms by simp
  from UnpackFeeConfigInput_256 [OF this] show ?thesis
    using assms by simp
qed

lemma FillBytes_padded:
  assumes "0 \<le> v" "v < 2 ^ 256"
  shows "\<exists>b. FillBytes (Some v) 32 = Inr b \<and> length b = 32 \<and> Int_SetBytes b = v"
proof (intro exI conjI)
  show "FillBytes (Some v) 32 = Inr (replicate (32 - length (Int_Bytes v)) 0 @ Int_Bytes v)"
    by (rule FillBytes_in_range [OF assms])
  show "length (replicate (32 - length (Int_Bytes v)) (0::byte) @ Int_Bytes v) = 32"
    using Int_Bytes_length [OF assms] by simp
  show "Int_SetBytes (replicate (32 - length (Int_Bytes v)) 0 @ Int_Bytes v) = v"
    using assms(1) by (simp only: Int_SetBytes_zeros Int_SetBytes_Int_Bytes)
qed

lemma setFeeConfig_all:
  "setFeeConfig p s
      \<lparr>GasLimit = Some v0, TargetBlockRate = Some v1, MinBaseFee = Some v2, TargetGas = Some v3,
       BaseFeeChangeDenominator = Some v4, MinBlockGasCost = Some v5, MaxBlockGasCost = Some v6,
       BlockGasCostStep = Some v7\<rparr> =
   (None,
    SetState (SetState (SetState (SetState (SetState (SetState (SetState (SetState s
      (FeeConfigManagerAddress p) (feeConfigKey 0) (BytesToHash (Int_Bytes v0)))
      (FeeConfigManagerAddress p) (feeConfigKey 1) (BytesToHash (Int_Bytes v1)))
      (FeeConfigManagerAddress p) (feeConfigKey 2) (BytesToHash (Int_Bytes v2)))
      (FeeConfigManagerAddress p) (feeConfigKey 3) (BytesToHash (Int_Bytes v3)))
      (FeeConfigManagerAddress p) (feeConfigKey 4) (BytesToHash (Int_Bytes v4)))
      (FeeConfigManagerAddress p) (feeConfigKey 5) (BytesToHash (Int_Bytes v5)))
      (FeeConfigManagerAddress p) (feeConfigKey 6) (BytesToHash (Int_Bytes v6)))
      (FeeConfigManagerAddress p) (feeConfigKey 7) (BytesToHash (Int_Bytes v7)))"
  unfolding setFeeConfig_def fee_config_keys by (rule setFeeConfig_loop_all)

lemma createSetFeeConfig_runs:
  assumes "SetFeeConfigGasCost p \<le> suppliedGas"
    and "IsEnabled (getAllowListStatus stateDB (FeeConfigManagerAddress p) caller)"
    and "UnpackFeeConfigInput input = Inr cfg"
    and "setFeeConfig p stateDB cfg = (None, stateDB')"
  shows "createSetFeeConfig p stateDB caller addr input suppliedGas False
      = (\<lparr>ret = [], remainingGas = suppliedGas - SetFeeConfigGasCost p, err = None\<rparr>, stateDB')"
  using assms by (simp add: createSetFeeConfig_def deductGas_enough)

text \<open>
  Claim C1. For every fee configuration whose eight fields are integers in
  \<open>[0, 2^256)\<close>: the packed call data exists, its 256-byte body given to
  \<^verbatim>\<open>createSetFeeConfig\<close> by an enabled caller, with enough gas and not read-only,
  succeeds; the resulting state is the one \<^verbatim>\<open>setFeeConfig\<close> produces for the
  configuration, and \<^verbatim>\<open>GetFeeConfig\<close> on it returns exactly the configuration.
\<close>

theorem setFeeConfig_then_GetFeeConfig:
  assumes "0 \<le> v0" "v0 < 2 ^ 256" "0 \<le> v1" "v1 < 2 ^ 256" "0 \<le> v2" "v2 < 2 ^ 256"
    "0 \<le> v3" "v3 < 2 ^ 256" "0 \<le> v4" "v4 < 2 ^ 256" "0 \<le> v5" "v5 < 2 ^ 256"
    "0 \<le> v6" "v6 < 2 ^ 256" "0 \<le> v7" "v7 < 2 ^ 256"
    and cfg: "cfg = \<lparr>GasLimit = Some v0, TargetBlockRate = Some v1, MinBaseFee = Some v2,
       TargetGas = Some v3, BaseFeeChangeDenominator = Some v4, MinBlockGasCost = Some v5,
       MaxBlockGasCost = Some v6, BlockGasCostStep = Some v7\<rparr>"
    and gas: "SetFeeConfigGasCost p \<le> suppliedGas"
    and enabled: "IsEnabled (getAllowListStatus stateDB (FeeConfigManagerAddress p) caller)"
    and sig: "length (setFeeConfigSignature p) = 4"
  shows "\<exists>packed stateDB'.
           PackSetFeeConfigInput p cfg = Inr packed
         \<and> length (drop 4 packed) = 256
         \<and> createSetFeeConfig p stateDB caller addr (drop 4 packed) suppliedGas False
             = (\<lparr>ret = [], remainingGas = suppliedGas - SetFeeConfigGasCost p, err = None\<rparr>, stateDB')
         \<and> setFeeConfig p stateDB cfg = (None, stateDB')
         \<and> GetFeeConfig p stateDB' = Inr cfg"
proof -
  obtain b0 where b0: "FillBytes (Some v0) 32 = Inr b0" "length b0 = 32" "Int_SetBytes b0 = v0"
    using FillBytes_padded [OF assms(1,2)] by blast
  obtain b1 where b1: "FillBytes (Some v1) 32 = Inr b1" "length b1 = 32" "Int_SetBytes b1 = v1"
    using FillBytes_padded [OF assms(3,4)] by blast
  obtain b2 where b2: "FillBytes (Some v2) 32 = Inr b2" "length b2 = 32" "Int_SetBytes b2 = v2"
    using FillBytes_padded [OF assms(5,6)] by blast
  obtain b3 where b3: "FillBytes (Some v3) 32 = Inr b3" "length b3 = 32" "Int_SetBytes b3 = v3"
    using FillBytes_padded [OF assms(7,8)] by blast
  obtain b4 where b4: "FillBytes (Some v4) 32 = Inr b4" "length b4 = 32" "Int_SetBytes b4 = v4"
    using FillBytes_padded [OF assms(9,10)] by blast
  obtain b5 where b5: "FillBytes (Some v5) 32 = Inr b5" "length b5 = 32" "Int_SetBytes b5 = v5"
    using FillBytes_padded [OF assms(11,12)] by blast
  obtain b6 where b6: "FillBytes (Some v6) 32 = Inr b6" "length b6 = 32" "Int_SetBytes b6 = v6"
    using FillBytes_padded [OF assms(13,14)] by blast
  obtain b7 where b7: "FillBytes (Some v7) 32 = Inr b7" "length b7 = 32" "Int_SetBytes b7 = v7"
    using FillBytes_padded [OF assms(15,16)] by blast
  define body where "body = b0 @ b1 @ b2 @ b3 @ b4 @ b5 @ b6 @ b7"
  define final where "final = snd (setFeeConfig p stateDB cfg)"
  have len: "length body = 256"
    by (simp add: body_def b0(2) b1(2) b2(2) b3(2) b4(2) b5(2) b6(2) b7(2))
  have pack: "PackSetFeeConfigInput p cfg = Inr (setFeeConfigSignature p @ body)"
    using sig len
    by (simp add: PackSetFeeConfigInput_def cfg b0(1) b1(1) b2(1) b3(1) b4(1) b5(1) b6(1) b7(1)
        bindE_def inputPackOrdered_def selectorLen_def feeConfigInputLen_def HashLength_def
        maxKey_def minKey_def key_defs body_def)
  have tail: "drop 4 (setFeeConfigSignature p @ body) = body"
    using sig by simp
  have unpack: "UnpackFeeConfigInput body = Inr cfg"
    unfolding body_def cfg
    using UnpackFeeConfigInput_parts [OF b0(2) b1(2) b2(2) b3(2) b4(2) b5(2) b6(2) b7(2)]
    by (simp only: b0(3) b1(3) b2(3) b3(3) b4(3) b5(3) b6(3) b7(3))
  have set: "setFeeConfig p stateDB cfg = (None, final)"
    unfolding final_def cfg by (simp only: setFeeConfig_all snd_conv)
  have get: "GetFeeConfig p final = Inr cfg"
    unfolding final_def cfg setFeeConfig_all snd_conv
    by (rule GetFeeConfig_after_set [OF assms(1-16)])
  have run: "createSetFeeConfig p stateDB caller addr body suppliedGas False
      = (\<lparr>ret = [], remainingGas = suppliedGas - SetFeeConfigGasCost p, err = None\<rparr>, final)"
    by (rule createSetFeeConfig_runs [OF gas enabled unpack set])
  show ?thesis
  proof (intro exI conjI)
    show "PackSetFeeConfigInput p cfg = Inr (setFeeConfigSignature p @ body)"
      by (rule pack)
    show "length (drop 4 (setFeeConfigSignature p @ body)) = 256"
      by (simp only: tail len)
    show "createSetFeeConfig p stateDB caller addr (drop 4 (setFeeConfigSignature p @ body))
        suppliedGas False
      = (\<lparr>ret = [], remainingGas = suppliedGas - SetFeeConfigGasCost p, err = None\<rparr>, final)"
      by (simp only: tail run)
    show "setFeeConfig p stateDB cfg = (None, final)"
      by (rule set)
    show "GetFeeConfig p final = Inr cfg"
      by (rule get)
  qed
qed


text \<open>
  The all-zero configuration, and a configuration holding the largest 256-bit value
  next to ordinary values, set by an admin.
\<close>

theorem setFeeConfig_then_GetFeeConfig_witness:
  "(\<exists>packed stateDB'.
       PackSetFeeConfigInput exampleParams
         \<lparr>GasLimit = Some 0, TargetBlockRate = Some 0, MinBaseFee = Some 0, TargetGas = Some 0,
          BaseFeeChangeDenominator = Some 0, MinBlockGasCost = Some 0, MaxBlockGasCost = Some 0,
          BlockGasCostStep = Some 0\<rparr> = Inr packed
     \<and> length (drop 4 packed) = 256
     \<and> createSetFeeConfig exampleParams exampleFeeState (replicate 20 9)
           (FeeConfigManagerAddress exampleParams) (drop 4 packed) 30000 False
         = (\<lparr>ret = [], remainingGas = 30000 - SetFeeConfigGasCost exampleParams, err = None\<rparr>,
            stateDB')
     \<and> setFeeConfig exampleParams exampleFeeState
         \<lparr>GasLimit = Some 0, TargetBlockRate = Some 0, MinBaseFee = Some 0, TargetGas = Some 0,
          BaseFeeChangeDenominator = Some 0, MinBlockGasCost = Some 0, MaxBlockGasCost = Some 0,
          BlockGasCostStep = Some 0\<rparr> = (None, stateDB')
     \<and> GetFeeConfig exampleParams stateDB' =
         Inr \<lparr>GasLimit = Some 0, TargetBlockRate = Some 0, MinBaseFee = Some 0, TargetGas = Some 0,
          BaseFeeChangeDenominator = Some 0, MinBlockGasCost = Some 0, MaxBlockGasCost = Some 0,
          BlockGasCostStep = Some 0\<rparr>)
   \<and> (\<exists>packed stateDB'.
       PackSetFeeConfigInput exampleParams
         \<lparr>GasLimit = Some maxUint256, TargetBlockRate = Some 2, MinBaseFee = Some 25000000000,
          TargetGas = Some 15000000, BaseFeeChangeDenominator = Some 36, MinBlockGasCost = Some 0,
          MaxBlockGasCost = Some 10000000, BlockGasCostStep = Some maxUint256\<rparr> = Inr packed
     \<and> length (drop 4 packed) = 256
     \<and> createSetFeeConfig exampleParams exampleFeeState (replicate 20 9)
           (FeeConfigManagerAddress exampleParams) (drop 4 packed) 30000 False
         = (\<lparr>ret = [], remainingGas = 30000 - SetFeeConfigGasCost exampleParams, err = None\<rparr>,
            stateDB')
     \<and> setFeeConfig exampleParams exampleFeeState
         \<lparr>GasLimit = Some maxUint256, TargetBlockRate = Some 2, MinBaseFee = Some 25000000000,
          TargetGas = Some 15000000, BaseFeeChangeDenominator = Some 36, MinBlockGasCost = Some 0,
          MaxBlockGasCost = Some 10000000, BlockGasCostStep = Some maxUint256\<rparr> = (None, stateDB')
     \<and> GetFeeConfig exampleParams stateDB' =
         Inr \<lparr>GasLimit = Some maxUint256, TargetBlockRate = Some 2, MinBaseFee = Some 25000000000,
          TargetGas = Some 15000000, BaseFeeChangeDenominator = Some 36, MinBlockGasCost = Some 0,
          MaxBlockGasCost = Some 10000000, BlockGasCostStep = Some maxUint256\<rparr>)"
proof -
  have gas: "SetFeeConfigGasCost exampleParams \<le> 30000"
    by (simp add: exampleParams_def)
  have en: "IsEnabled (getAllowListStatus exampleFeeState (FeeConfigManagerAddress exampleParams)
      (replicate 20 9))"
    by code_simp
  have sig: "length (setFeeConfigSignature exampleParams) = 4"
    by (simp add: exampleParams_def)
  have z: "(0::int) \<le> 0" "(0::int) < 2 ^ 256"
    by simp_all
  have m: "0 \<le> maxUint256" "maxUint256 < 2 ^ 256"
    by (simp_all add: maxUint256_def)
  have a: "(0::int) \<le> 2" "(2::int) < 2 ^ 256" "(0::int) \<le> 25000000000" "(25000000000::int) < 2 ^ 256"
    "(0::int) \<le> 15000000" "(15000000::int) < 2 ^ 256" "(0::int) \<le> 36" "(36::int) < 2 ^ 256"
    "(0::int) \<le> 10000000" "(10000000::int) < 2 ^ 256"
    by simp_all
  show ?thesis
    by (intro conjI
        setFeeConfig_then_GetFeeConfig [OF z z z z z z z z refl gas en sig]
        setFeeConfig_then_GetFeeConfig [OF m a(1-8) z a(9,10) m refl gas en sig])
qed

text \<open>The empty state, and a state whose slots 0 and 7 hold 5 and 9.\<close>

theorem GetFeeConfig_result_witness:
  "GetFeeConfig exampleParams Map.empty = Inr emptyFeeConfig
   \<and> GetFeeConfig exampleParams
       (SetState (SetState Map.empty (FeeConfigManagerAddress exampleParams)
          (feeConfigKey 7) (replicate 31 0 @ [9]))
          (FeeConfigManagerAddress exampleParams) (feeConfigKey 0) (replicate 31 0 @ [5]))
     = Inr \<lparr>GasLimit = Some 5, TargetBlockRate = Some 0, MinBaseFee = Some 0, TargetGas = Some 0,
          BaseFeeChangeDenominator = Some 0, MinBlockGasCost = Some 0, MaxBlockGasCost = Some 0,
          BlockGasCostStep = Some 9\<rparr>"
proof -
  let ?A = "FeeConfigManagerAddress exampleParams"
  let ?s = "SetState (SetState Map.empty ?A (feeConfigKey 7) (replicate 31 0 @ [9]))
          ?A (feeConfigKey 0) (replicate 31 0 @ [5])"
  have absent: "\<not> Exist Map.empty ?A"
    by (simp add: Exist_def)
  have present: "Exist ?s ?A"
    by (rule Exist_SetState)
  have slots: "Int_SetBytes (GetState ?s ?A (feeConfigKey 0)) = 5"
    "Int_SetBytes (GetState ?s ?A (feeConfigKey 1)) = 0"
    "Int_SetBytes (GetState ?s ?A (feeConfigKey 2)) = 0"
    "Int_SetBytes (GetState ?s ?A (feeConfigKey 3)) = 0"
    "Int_SetBytes (GetState ?s ?A (feeConfigKey 4)) = 0"
    "Int_SetBytes (GetState ?s ?A (feeConfigKey 5)) = 0"
    "Int_SetBytes (GetState ?s ?A (feeConfigKey 6)) = 0"
    "Int_SetBytes (GetState ?s ?A (feeConfigKey 7)) = 9"
    by code_simp+
  from GetFeeConfig_result [of Map.empty exampleParams] absent
  have e: "GetFeeConfig exampleParams Map.empty = Inr emptyFeeConfig"
    by (rule conjunct1 [THEN mp])
  from GetFeeConfig_result [of ?s exampleParams] present
  have "GetFeeConfig exampleParams ?s =
      Inr \<lparr>GasLimit = Some (Int_SetBytes (GetState ?s ?A (feeConfigKey 0))),
           TargetBlockRate = Some (Int_SetBytes (GetState ?s ?A (feeConfigKey 1))),
           MinBaseFee = Some (Int_SetBytes (GetState ?s ?A (feeConfigKey 2))),
           TargetGas = Some (Int_SetBytes (GetState ?s ?A (feeConfigKey 3))),
           BaseFeeChangeDenominator = Some (Int_SetBytes (GetState ?s ?A (feeConfigKey 4))),
           MinBlockGasCost = Some (Int_SetBytes (GetState ?s ?A (feeConfigKey 5))),
           MaxBlockGasCost = Some (Int_SetBytes (GetState ?s ?A (feeConfigKey 6))),
           BlockGasCostStep = Some (Int_SetBytes (GetState ?s ?A (feeConfigKey 7)))\<rparr>"
    by (rule conjunct2 [THEN mp])
  then have "GetFeeConfig exampleParams ?s =
      Inr \<lparr>GasLimit = Some 5, TargetBlockRate = Some 0, MinBaseFee = Some 0, TargetGas = Some 0,
          BaseFeeChangeDenominator = Some 0, MinBlockGasCost = Some 0, MaxBlockGasCost = Some 0,
          BlockGasCostStep = Some 9\<rparr>"
    by (simp only: slots)
  with e show ?thesis
    by (rule conjI)
qed

end
